theory Spec2Isabelle
  imports Main "HOL-Library.Word" "HOL-Library.Sublist"
begin

section \<open>Go values\<close>

text \<open>
  The controller is built for 64-bit targets, where Go's \<open>int\<close> is a 64-bit two's
  complement integer: \<open>+\<close> and \<open>++\<close> wrap around, comparisons are signed. A
  Kubernetes node port is an \<open>int32\<close>. Go strings are byte sequences, as
  \<^typ>\<open>string\<close> is.
\<close>

type_synonym go_int = "64 word"
type_synonym int32 = "32 word"

text \<open>
  Go errors. \<open>ErrWrap p e\<close> is \<open>fmt.Errorf("p: %w", e)\<close>; \<open>ErrMsg\<close> is
  \<open>errors.New\<close> or \<open>fmt.Errorf\<close> without a cause; the others are the sentinel
  conditions the code tests for, and \<open>ErrPanic\<close> is a run-time panic.
\<close>

datatype error =
    ErrMsg string
  | ErrWrap string error
  | ErrNotFound
  | ErrAlreadyExists
  | ErrConflict
  | ErrNoRows
  | ErrSyntax string
  | ErrRange string
  | ErrPanic string

text \<open>\<open>errors.Is\<close> and \<open>k8serrors.IsNotFound\<close> look through the chain of causes.\<close>

fun errorsIs :: "error \<Rightarrow> error \<Rightarrow> bool" where
  "errorsIs (ErrWrap p e) t = (ErrWrap p e = t \<or> errorsIs e t)"
| "errorsIs e t = (e = t)"

definition IsNotFound :: "error \<Rightarrow> bool" where
  "IsNotFound e = errorsIs e ErrNotFound"

subsection \<open>strings.TrimSpace\<close>

text \<open>
  \<open>strings.TrimSpace\<close> removes leading and trailing Unicode white space. On the bytes
  of a string that is: the six ASCII space characters and the UTF-8 encodings of U+0085,
  U+00A0, U+1680, U+2000 to U+200A, U+2028, U+2029, U+202F, U+205F and U+3000.
\<close>

definition spaceRunes :: "string list" where
  "spaceRunes =
    [[CHR 0x09], [CHR 0x0A], [CHR 0x0B], [CHR 0x0C], [CHR 0x0D], [CHR 0x20],
     [CHR 0xC2, CHR 0x85], [CHR 0xC2, CHR 0xA0],
     [CHR 0xE1, CHR 0x9A, CHR 0x80],
     [CHR 0xE2, CHR 0x80, CHR 0x80], [CHR 0xE2, CHR 0x80, CHR 0x81],
     [CHR 0xE2, CHR 0x80, CHR 0x82], [CHR 0xE2, CHR 0x80, CHR 0x83],
     [CHR 0xE2, CHR 0x80, CHR 0x84], [CHR 0xE2, CHR 0x80, CHR 0x85],
     [CHR 0xE2, CHR 0x80, CHR 0x86], [CHR 0xE2, CHR 0x80, CHR 0x87],
     [CHR 0xE2, CHR 0x80, CHR 0x88], [CHR 0xE2, CHR 0x80, CHR 0x89],
     [CHR 0xE2, CHR 0x80, CHR 0x8A],
     [CHR 0xE2, CHR 0x80, CHR 0xA8], [CHR 0xE2, CHR 0x80, CHR 0xA9],
     [CHR 0xE2, CHR 0x80, CHR 0xAF],
     [CHR 0xE2, CHR 0x81, CHR 0x9F],
     [CHR 0xE3, CHR 0x80, CHR 0x80]]"

text \<open>The number of bytes of the space rune a string begins with, 0 when it begins with none.\<close>

definition leadingSpace :: "string list \<Rightarrow> string \<Rightarrow> nat" where
  "leadingSpace runes s = (case find (\<lambda>p. prefix p s) runes of None \<Rightarrow> 0 | Some p \<Rightarrow> length p)"

function trimLeftRunes :: "string list \<Rightarrow> string \<Rightarrow> string" where
  "trimLeftRunes runes s =
     (if leadingSpace runes s = 0 \<or> s = [] then s
      else trimLeftRunes runes (drop (leadingSpace runes s) s))"
  by pat_completeness auto
termination
  by (relation "measure (\<lambda>(runes, s). length s)") auto

declare trimLeftRunes.simps [simp del]

definition TrimSpace :: "string \<Rightarrow> string" where
  "TrimSpace s = rev (trimLeftRunes (map rev spaceRunes) (rev (trimLeftRunes spaceRunes s)))"

subsection \<open>strconv.Itoa and strconv.Atoi\<close>

definition digitChar :: "nat \<Rightarrow> char" where
  "digitChar d = char_of (48 + d)"

function digits :: "nat \<Rightarrow> string" where
  "digits n = (if n < 10 then [digitChar n] else digits (n div 10) @ [digitChar (n mod 10)])"
  by pat_completeness auto
termination
  by (relation "measure id") auto

declare digits.simps [simp del]

definition Itoa :: "go_int \<Rightarrow> string" where
  "Itoa i = (if sint i < 0 then CHR ''-'' # digits (nat (- sint i)) else digits (nat (sint i)))"

definition isDigit :: "char \<Rightarrow> bool" where
  "isDigit c = (48 \<le> (of_char c :: nat) \<and> (of_char c :: nat) \<le> 57)"

definition digitsValue :: "string \<Rightarrow> nat" where
  "digitsValue ds = foldl (\<lambda>n c. n * 10 + ((of_char c :: nat) - 48)) 0 ds"

text \<open>
  \<open>strconv.Atoi\<close>: an optional sign, then one or more decimal digits and nothing else;
  a value outside the 64-bit range is a range error.
\<close>

definition Atoi :: "string \<Rightarrow> error + go_int" where
  "Atoi s =
     (let neg = (s \<noteq> [] \<and> hd s = CHR ''-'');
          ds = (if s \<noteq> [] \<and> (hd s = CHR ''-'' \<or> hd s = CHR ''+'') then tl s else s)
      in if ds = [] \<or> \<not> list_all isDigit ds then Inl (ErrSyntax s)
         else if neg then
           (if digitsValue ds \<le> 2 ^ 63 then Inr (word_of_int (- int (digitsValue ds)))
            else Inl (ErrRange s))
         else
           (if digitsValue ds < 2 ^ 63 then Inr (word_of_int (int (digitsValue ds)))
            else Inl (ErrRange s)))"

section \<open>Port allocator (internal/ports/allocator.go)\<close>

record PortRange =
  Start :: go_int
  End :: go_int

record PortsConfig =
  Game :: PortRange
  SourceTV :: PortRange
  Client :: PortRange
  Steam :: PortRange

record Assignment =
  aGame :: go_int
  aSourceTV :: go_int
  aClient :: go_int
  aSteam :: go_int

text \<open>A service is observed through the node ports of its port list.\<close>

type_synonym service = "int32 list"

text \<open>The used set built by the first loop of \<open>Allocate\<close>.\<close>

definition usedPorts :: "service list \<Rightarrow> go_int set" where
  "usedPorts svcs = set (map scast (filter (\<lambda>p. 0 < sint p) (concat svcs)))"

text \<open>
  The loop of \<open>nextFree\<close>, from the current \<open>port\<close>. The result is the pick with the
  used set that reserves it, or the error. With \<open>End\<close> at the largest \<open>int\<close> the
  condition \<open>port <= pr.End\<close> never fails and \<open>port++\<close> wraps around, so the loop only
  ends at a free port.
\<close>

partial_function (option) nextFreeFrom ::
  "PortRange \<Rightarrow> go_int set \<Rightarrow> go_int \<Rightarrow> (error + go_int \<times> go_int set) option" where
  "nextFreeFrom pr used port =
     (if sint port \<le> sint (End pr) then
        (if port \<in> used then nextFreeFrom pr used (port + 1)
         else Some (Inr (port, insert port used)))
      else Some (Inl (ErrMsg (''no free ports available in range '' @ Itoa (Start pr) @ ''-'' @ Itoa (End pr)))))"

definition nextFree :: "PortRange \<Rightarrow> go_int set \<Rightarrow> (error + go_int \<times> go_int set) option" where
  "nextFree pr used = nextFreeFrom pr used (Start pr)"

text \<open>
  \<open>Allocate\<close>, given what \<open>svcClient.List\<close> returned. \<open>None\<close> is a call that does
  not return.
\<close>

definition Allocate :: "PortsConfig \<Rightarrow> error + service list \<Rightarrow> (error + Assignment) option" where
  "Allocate ranges listed =
     (case listed of
        Inl err \<Rightarrow> Some (Inl (ErrWrap ''list services'' err))
      | Inr svcs \<Rightarrow>
         (case nextFree (Game ranges) (usedPorts svcs) of
            None \<Rightarrow> None
          | Some (Inl err) \<Rightarrow> Some (Inl err)
          | Some (Inr (g, used1)) \<Rightarrow>
         (case nextFree (SourceTV ranges) used1 of
            None \<Rightarrow> None
          | Some (Inl err) \<Rightarrow> Some (Inl err)
          | Some (Inr (s, used2)) \<Rightarrow>
         (case nextFree (Client ranges) used2 of
            None \<Rightarrow> None
          | Some (Inl err) \<Rightarrow> Some (Inl err)
          | Some (Inr (c, used3)) \<Rightarrow>
         (case nextFree (Steam ranges) used3 of
            None \<Rightarrow> None
          | Some (Inl err) \<Rightarrow> Some (Inl err)
          | Some (Inr (t, used4)) \<Rightarrow>
              Some (Inr \<lparr>aGame = g, aSourceTV = s, aClient = c, aSteam = t\<rparr>))))))"

text \<open>
  The controller calls \<open>Allocate\<close> on the service list of its namespace. Node ports are
  32-bit, so the used set never covers the 64-bit integers and the scans always end
  (\<open>Allocate_returns\<close> below); the first case is the value of a call that returns.
\<close>

definition AllocateResult :: "PortsConfig \<Rightarrow> error + service list \<Rightarrow> error + Assignment" where
  "AllocateResult ranges listed =
     (case Allocate ranges listed of
        Some res \<Rightarrow> res
      | None \<Rightarrow> Inl (ErrPanic ''Allocate does not return''))"

section \<open>Configuration (internal/config/config.go)\<close>

text \<open>The fields the reconciler reads.\<close>

record SRCDSConfig =
  TickRate :: go_int
  MaxPlayersOverride :: go_int
  StaticToken :: string
  PasswordLength :: go_int
  RCONLength :: go_int

record MatchConfig =
  TargetStatuses :: "go_int list"
  DefaultMap :: string
  DivisionFilters :: "string list"

record NetworkingConfig =
  HostNetwork :: bool
  NodeIPPreference :: string
  ExternalTrafficPolicy :: string

record NotificationConfig =
  Enabled :: bool
  LinkFormat :: string

text \<open>
  Modelled from the spec: the declaration of \<open>Config.Steam\<close> is missing from
  config.go. The fields are the ones controller.go reads (\<open>EnableAutoTokens\<close>,
  \<open>EnableTokenCleanup\<close>, \<open>APIKey\<close>, \<open>AppID\<close> and the memo template of the
  identity registry, applied to the match and round ids).
\<close>

record SteamConfig =
  EnableAutoTokens :: bool
  EnableTokenCleanup :: bool
  APIKey :: string
  AppID :: go_int
  TokenMemoTemplate :: string

record Config =
  cfgNamespace :: string
  cfgPorts :: PortsConfig
  cfgSRCDS :: SRCDSConfig
  cfgMatch :: MatchConfig
  cfgNetworking :: NetworkingConfig
  cfgNotifications :: NotificationConfig
  cfgSteam :: SteamConfig

section \<open>Database rows (internal/database/repository.go)\<close>

record Match =
  mID :: go_int
  RosterAwayID :: go_int
  RosterHomeID :: go_int
  WinLimit :: go_int
  Status :: go_int
  ManualNotDone :: bool

text \<open>\<open>MatchRound\<close> without its floating-point score difference, which nothing reads.\<close>

record MatchRound =
  rID :: go_int
  rMatchID :: go_int
  MapID :: go_int
  HomeTeamScore :: go_int
  AwayTeamScore :: go_int
  LoserID :: "go_int option"
  WinnerID :: "go_int option"
  HasOutcome :: bool
  HomeReady :: bool
  AwayReady :: bool

record MatchDetails =
  dMatchID :: go_int
  dRoundID :: go_int
  ServerIP :: string
  dPort :: go_int
  dSourceTVPort :: go_int
  dPassword :: string
  dMap :: string

text \<open>\<open>League\<close> without its floating-point point tables, which the controller passes by.\<close>

record League =
  MinPlayers :: go_int
  MaxPlayers :: go_int

record Division =
  divID :: string
  divName :: string

text \<open>
  The columns \<open>FetchMatchDetails\<close> scans from a \<open>matches_server_details\<close> row: the
  two port columns are scanned as text.
\<close>

record DetailsRow =
  rowMatchID :: go_int
  rowRoundID :: go_int
  rowServerIP :: string
  rowPort :: string
  rowSourceTVPort :: string
  rowPassword :: string
  rowMap :: string

section \<open>Cluster objects and the identity registry\<close>

text \<open>A \<open>corev1.Secret\<close>: the metadata the controller sets, and the data map.\<close>

record Secret =
  secName :: string
  secNamespace :: string
  secLabels :: "(string \<times> string) list"
  secData :: "(string \<times> string) list"
  secType :: string
  ResourceVersion :: string

datatype NodeAddressType = NodeHostName | NodeInternalIP | NodeExternalIP | NodeInternalDNS | NodeExternalDNS

text \<open>A node is observed through its status addresses.\<close>

type_synonym Node = "(NodeAddressType \<times> string) list"

text \<open>Helm values: the nested maps and lists \<open>buildValues\<close> builds, maps in source order.\<close>

datatype Value =
    VString string
  | VInt go_int
  | VBool bool
  | VList "Value list"
  | VMap "(string \<times> Value) list"

text \<open>internal/steam/client.go\<close>

record Account =
  SteamID :: string
  accAppID :: "16 word"
  LoginToken :: string
  Memo :: string
  IsDeleted :: bool
  IsExpired :: bool
  LastLogon :: go_int

record HttpRequest =
  reqMethod :: string
  reqURL :: string
  reqQuery :: "(string \<times> string) list"

text \<open>
  What \<open>querySteam\<close> reads of a response: \<open>resp.Header.Get("X-error_message")\<close>
  (empty when the header is absent), the status code, and what \<open>io.ReadAll\<close> of the
  body gives.
\<close>

record HttpResponse =
  ErrorMessageHeader :: string
  StatusCode :: go_int
  Body :: "error + string"

section \<open>The outside world\<close>

text \<open>
  The database, the cluster, the chart renderer, the random source and the HTTP
  transport are collaborators. Each of their operations is a function on a state of the
  world \<open>'w\<close> about which nothing is assumed; it returns its result and the next
  state. The operations below the line of \<open>FetchMatchDetails\<close> and
  \<open>SendNotificationsToTeams\<close> are the SQL statements those two run.
\<close>

record 'w Database =
  FetchMatches :: "go_int list \<Rightarrow> 'w \<Rightarrow> (error + Match list) \<times> 'w"
  FetchDivision :: "go_int \<Rightarrow> 'w \<Rightarrow> (error + Division) \<times> 'w"
  FetchLeague :: "string \<Rightarrow> 'w \<Rightarrow> (error + League) \<times> 'w"
  FetchTeamSteamIDs :: "go_int \<Rightarrow> 'w \<Rightarrow> (error + string list) \<times> 'w"
  FetchMatchRounds :: "go_int \<Rightarrow> 'w \<Rightarrow> (error + MatchRound list) \<times> 'w"
  FetchMapName :: "go_int \<Rightarrow> 'w \<Rightarrow> (error + string) \<times> 'w"
  UpsertMatchDetails :: "MatchDetails \<Rightarrow> 'w \<Rightarrow> error option \<times> 'w"
  DeleteMatchDetails :: "go_int \<Rightarrow> go_int \<Rightarrow> 'w \<Rightarrow> error option \<times> 'w"
  SelectMatchDetails :: "go_int \<Rightarrow> go_int \<Rightarrow> 'w \<Rightarrow> (error + DetailsRow) \<times> 'w"
  SelectRosterUserIDs :: "go_int \<Rightarrow> 'w \<Rightarrow> (error + go_int list) \<times> 'w"
  InsertUserNotification :: "go_int \<Rightarrow> string \<Rightarrow> string \<Rightarrow> 'w \<Rightarrow> error option \<times> 'w"

record 'w Cluster =
  SecretsGet :: "string \<Rightarrow> string \<Rightarrow> 'w \<Rightarrow> (error + Secret) \<times> 'w"
  SecretsCreate :: "string \<Rightarrow> Secret \<Rightarrow> 'w \<Rightarrow> error option \<times> 'w"
  SecretsUpdate :: "string \<Rightarrow> Secret \<Rightarrow> 'w \<Rightarrow> error option \<times> 'w"
  SecretsDelete :: "string \<Rightarrow> string \<Rightarrow> 'w \<Rightarrow> error option \<times> 'w"
  ServicesList :: "string \<Rightarrow> 'w \<Rightarrow> (error + service list) \<times> 'w"
  NodesList :: "'w \<Rightarrow> (error + Node list) \<times> 'w"

record 'w Env =
  db :: "'w Database"
  k8s :: "'w Cluster"
  RendererApply :: "string \<Rightarrow> Value \<Rightarrow> 'w \<Rightarrow> error option \<times> 'w"
  RendererDelete :: "string \<Rightarrow> Value \<Rightarrow> 'w \<Rightarrow> error option \<times> 'w"
  RandInt :: "nat \<Rightarrow> 'w \<Rightarrow> (error + nat) \<times> 'w"
  HttpDo :: "HttpRequest \<Rightarrow> 'w \<Rightarrow> (error + HttpResponse) \<times> 'w"

text \<open>
  Functions of the Go standard library whose tables and grammars are not part of the
  repository: Unicode lower-casing, \<open>fmt.Sprintf\<close> with a configured format string
  and one or two integers, the IPv4 test of \<open>net.ParseIP\<close>, and the three JSON
  decodings of the registry client.
\<close>

record GoLib =
  ToLower :: "string \<Rightarrow> string"
  Sprintf1 :: "string \<Rightarrow> go_int \<Rightarrow> string"
  Sprintf2 :: "string \<Rightarrow> go_int \<Rightarrow> go_int \<Rightarrow> string"
  parsesAsIPv4 :: "string \<Rightarrow> bool"
  jsonResponse :: "string \<Rightarrow> error + string"
  jsonAccount :: "string \<Rightarrow> error + Account"
  jsonServers :: "string \<Rightarrow> error + Account list"

text \<open>The requests made to the collaborators, in the order they were made.\<close>

datatype event =
    EvFetchMatches "go_int list"
  | EvFetchDivision go_int
  | EvFetchLeague string
  | EvFetchTeamSteamIDs go_int
  | EvFetchMatchRounds go_int
  | EvFetchMapName go_int
  | EvUpsertMatchDetails MatchDetails
  | EvDeleteMatchDetails go_int go_int
  | EvSelectMatchDetails go_int go_int
  | EvSelectRosterUserIDs go_int
  | EvInsertUserNotification go_int string string
  | EvSecretsGet string string
  | EvSecretsCreate string Secret
  | EvSecretsUpdate string Secret
  | EvSecretsDelete string string
  | EvServicesList string
  | EvNodesList
  | EvRendererApply string Value
  | EvRendererDelete string Value
  | EvRandInt nat
  | EvHttpDo HttpRequest

text \<open>An execution is at a state of the world, with the requests made so far.\<close>

type_synonym 'w exec = "'w \<times> event list"

definition call :: "event \<Rightarrow> ('w \<Rightarrow> 'a \<times> 'w) \<Rightarrow> 'w exec \<Rightarrow> 'a \<times> 'w exec" where
  "call ev operation ex =
     (case operation (fst ex) of (res, w') \<Rightarrow> (res, (w', snd ex @ [ev])))"

section \<open>Identity-registry client (internal/steam/client.go)\<close>

definition location :: string where
  "location = ''https://api.steampowered.com/IGameServersService/''"

definition version :: string where
  "version = ''v1''"

text \<open>
  \<open>querySteam\<close> from the check of the error header on: what it returns for a response
  it received.
\<close>

definition steamResult :: "GoLib \<Rightarrow> HttpResponse \<Rightarrow> error + string" where
  "steamResult lib resp =
     (if ErrorMessageHeader resp \<noteq> [] then Inl (ErrMsg (ErrorMessageHeader resp))
      else if StatusCode resp \<noteq> 200 then
        Inl (ErrMsg (''steam API request failed with status '' @ Itoa (StatusCode resp)))
      else
        (case Body resp of
           Inl err \<Rightarrow> Inl err
         | Inr body \<Rightarrow>
            (case jsonResponse lib body of
               Inl err \<Rightarrow> Inl err
             | Inr inner \<Rightarrow> Inr inner)))"

text \<open>
  \<open>querySteam\<close>. The request carries the API key and then the parameters; the method
  and command are the constants of the three callers, for which \<open>http.NewRequest\<close>
  does not fail.
\<close>

definition querySteam ::
  "GoLib \<Rightarrow> 'w Env \<Rightarrow> string \<Rightarrow> string \<Rightarrow> string \<Rightarrow> (string \<times> string) list \<Rightarrow> 'w exec
     \<Rightarrow> (error + string) \<times> 'w exec" where
  "querySteam lib env apiKey command method params ex =
     (case call (EvHttpDo \<lparr>reqMethod = method, reqURL = location @ command @ ''/'' @ version,
                            reqQuery = (''key'', apiKey) # params\<rparr>)
                (HttpDo env \<lparr>reqMethod = method, reqURL = location @ command @ ''/'' @ version,
                             reqQuery = (''key'', apiKey) # params\<rparr>) ex of
        (Inl err, ex1) \<Rightarrow> (Inl err, ex1)
      | (Inr resp, ex1) \<Rightarrow> (steamResult lib resp, ex1))"

definition CreateAccount ::
  "GoLib \<Rightarrow> 'w Env \<Rightarrow> string \<Rightarrow> go_int \<Rightarrow> string \<Rightarrow> 'w exec \<Rightarrow> (error + Account) \<times> 'w exec" where
  "CreateAccount lib env apiKey appID memo ex =
     (case querySteam lib env apiKey ''CreateAccount'' ''POST''
             [(''appid'', Itoa appID), (''memo'', memo)] ex of
        (Inl err, ex1) \<Rightarrow> (Inl err, ex1)
      | (Inr data, ex1) \<Rightarrow> (jsonAccount lib data, ex1))"

definition GetAccountList ::
  "GoLib \<Rightarrow> 'w Env \<Rightarrow> string \<Rightarrow> 'w exec \<Rightarrow> (error + Account list) \<times> 'w exec" where
  "GetAccountList lib env apiKey ex =
     (case querySteam lib env apiKey ''GetAccountList'' ''GET'' [] ex of
        (Inl err, ex1) \<Rightarrow> (Inl err, ex1)
      | (Inr data, ex1) \<Rightarrow> (jsonServers lib data, ex1))"

definition DeleteAccount ::
  "GoLib \<Rightarrow> 'w Env \<Rightarrow> string \<Rightarrow> string \<Rightarrow> 'w exec \<Rightarrow> error option \<times> 'w exec" where
  "DeleteAccount lib env apiKey steamID ex =
     (case querySteam lib env apiKey ''DeleteAccount'' ''POST'' [(''steamid'', steamID)] ex of
        (Inl err, ex1) \<Rightarrow> (Some err, ex1)
      | (Inr data, ex1) \<Rightarrow> (None, ex1))"

section \<open>Repository functions with logic of their own\<close>

definition FetchMatchDetails ::
  "'w Env \<Rightarrow> go_int \<Rightarrow> go_int \<Rightarrow> 'w exec \<Rightarrow> (error + MatchDetails option) \<times> 'w exec" where
  "FetchMatchDetails env matchID roundID ex =
     (case call (EvSelectMatchDetails matchID roundID)
                (SelectMatchDetails (db env) matchID roundID) ex of
        (Inl err, ex1) \<Rightarrow>
          (if errorsIs err ErrNoRows then (Inr None, ex1)
           else (Inl (ErrWrap (''fetch match details ('' @ Itoa matchID @ '','' @ Itoa roundID @ '')'') err), ex1))
      | (Inr row, ex1) \<Rightarrow>
          (case Atoi (TrimSpace (rowPort row)) of
             Inl err \<Rightarrow> (Inl (ErrWrap ''parse port from details'' err), ex1)
           | Inr port \<Rightarrow>
          (case Atoi (TrimSpace (rowSourceTVPort row)) of
             Inl err \<Rightarrow> (Inl (ErrWrap ''parse sourcetv port from details'' err), ex1)
           | Inr sourceTVPort \<Rightarrow>
              (Inr (Some \<lparr>dMatchID = rowMatchID row, dRoundID = rowRoundID row,
                          ServerIP = rowServerIP row, dPort = port,
                          dSourceTVPort = sourceTVPort, dPassword = rowPassword row,
                          dMap = rowMap row\<rparr>), ex1))))"

definition createUserNotification ::
  "'w Env \<Rightarrow> go_int \<Rightarrow> string \<Rightarrow> string \<Rightarrow> 'w exec \<Rightarrow> error option \<times> 'w exec" where
  "createUserNotification env userID message link ex =
     (case call (EvInsertUserNotification userID message link)
                (InsertUserNotification (db env) userID message link) ex of
        (Some err, ex1) \<Rightarrow> (Some (ErrWrap (''insert user_notification for '' @ Itoa userID) err), ex1)
      | (None, ex1) \<Rightarrow> (None, ex1))"

text \<open>The loop of \<open>SendNotificationsToTeams\<close> over the recipients.\<close>

fun notifyRecipients ::
  "'w Env \<Rightarrow> go_int list \<Rightarrow> string \<Rightarrow> string \<Rightarrow> 'w exec \<Rightarrow> error option \<times> 'w exec" where
  "notifyRecipients env [] message link ex = (None, ex)"
| "notifyRecipients env (userID # rest) message link ex =
     (case createUserNotification env userID message link ex of
        (Some err, ex1) \<Rightarrow> (Some (ErrWrap (''create notification for user '' @ Itoa userID) err), ex1)
      | (None, ex1) \<Rightarrow> notifyRecipients env rest message link ex1)"

definition SendNotificationsToTeams ::
  "'w Env \<Rightarrow> go_int \<Rightarrow> go_int \<Rightarrow> string \<Rightarrow> string \<Rightarrow> 'w exec \<Rightarrow> error option \<times> 'w exec" where
  "SendNotificationsToTeams env homeRosterID awayRosterID message link ex =
     (case call (EvSelectRosterUserIDs homeRosterID) (SelectRosterUserIDs (db env) homeRosterID) ex of
        (Inl err, ex1) \<Rightarrow> (Some (ErrWrap ''fetch home user ids'' err), ex1)
      | (Inr homeUsers, ex1) \<Rightarrow>
     (case call (EvSelectRosterUserIDs awayRosterID) (SelectRosterUserIDs (db env) awayRosterID) ex1 of
        (Inl err, ex2) \<Rightarrow> (Some (ErrWrap ''fetch away user ids'' err), ex2)
      | (Inr awayUsers, ex2) \<Rightarrow>
          notifyRecipients env (homeUsers @ awayUsers) message link ex2))"

section \<open>Reconciler (internal/controller/controller.go)\<close>

text \<open>Log output (\<open>klog\<close>) is not modelled: it changes nothing the code reads.\<close>

record serverState =
  ReleaseName :: string
  sPorts :: Assignment
  sPassword :: string
  RCON :: string
  sMap :: string
  Token :: string

text \<open>
  The controller: its configuration, whether \<open>renderer\<close> is non-nil, and the API key
  of \<open>steamClient\<close> when that is non-nil.
\<close>

record Controller =
  ctlCfg :: Config
  hasRenderer :: bool
  steamClient :: "string option"

definition New :: "Config \<Rightarrow> bool \<Rightarrow> Controller" where
  "New config renderer =
     \<lparr>ctlCfg = config, hasRenderer = renderer,
      steamClient = (if EnableAutoTokens (cfgSteam config) \<and> APIKey (cfgSteam config) \<noteq> []
                     then Some (APIKey (cfgSteam config)) else None)\<rparr>"

definition secretKeyPassword :: string where "secretKeyPassword = ''password''"
definition secretKeyRCON :: string where "secretKeyRCON = ''rcon''"
definition secretKeyGamePort :: string where "secretKeyGamePort = ''game_port''"
definition secretKeySourcePort :: string where "secretKeySourcePort = ''sourcetv_port''"
definition secretKeyClientPort :: string where "secretKeyClientPort = ''client_port''"
definition secretKeySteamPort :: string where "secretKeySteamPort = ''steam_port''"
definition secretKeyMap :: string where "secretKeyMap = ''map''"
definition secretKeyToken :: string where "secretKeyToken = ''token''"

definition releaseName :: "go_int \<Rightarrow> go_int \<Rightarrow> string" where
  "releaseName matchID roundID = ''udl-'' @ Itoa matchID @ ''-r'' @ Itoa roundID"

definition secretName :: "string \<Rightarrow> string" where
  "secretName release = release @ ''-settings''"

text \<open>\<open>preferValue\<close>: the loop over the candidates, then the function.\<close>

fun firstNonBlank :: "string list \<Rightarrow> string" where
  "firstNonBlank [] = []"
| "firstNonBlank (candidate # rest) =
     (if TrimSpace candidate \<noteq> [] then TrimSpace candidate else firstNonBlank rest)"

definition preferValue :: "string \<Rightarrow> string list \<Rightarrow> string" where
  "preferValue primary fallbacks = firstNonBlank (primary # fallbacks)"

text \<open>The closures \<open>parse\<close> and \<open>toInt\<close> of \<open>loadServerState\<close>.\<close>

definition secretParse :: "Secret \<Rightarrow> string \<Rightarrow> string" where
  "secretParse secret key = (case map_of (secData secret) key of Some d \<Rightarrow> d | None \<Rightarrow> [])"

definition secretToInt :: "Secret \<Rightarrow> string \<Rightarrow> error + go_int" where
  "secretToInt secret key =
     (if secretParse secret key = [] then Inl (ErrMsg (''secret missing '' @ key))
      else Atoi (secretParse secret key))"

definition loadServerState ::
  "'w Env \<Rightarrow> Controller \<Rightarrow> string \<Rightarrow> 'w exec \<Rightarrow> (error + serverState option) \<times> 'w exec" where
  "loadServerState env c release ex =
     (case call (EvSecretsGet (cfgNamespace (ctlCfg c)) (secretName release))
                (SecretsGet (k8s env) (cfgNamespace (ctlCfg c)) (secretName release)) ex of
        (Inl err, ex1) \<Rightarrow> (if IsNotFound err then (Inr None, ex1) else (Inl err, ex1))
      | (Inr secret, ex1) \<Rightarrow>
         (case secretToInt secret secretKeyGamePort of
            Inl err \<Rightarrow> (Inl err, ex1)
          | Inr gamePort \<Rightarrow>
         (case secretToInt secret secretKeySourcePort of
            Inl err \<Rightarrow> (Inl err, ex1)
          | Inr sourcePort \<Rightarrow>
         (case secretToInt secret secretKeyClientPort of
            Inl err \<Rightarrow> (Inl err, ex1)
          | Inr clientPort \<Rightarrow>
         (case secretToInt secret secretKeySteamPort of
            Inl err \<Rightarrow> (Inl err, ex1)
          | Inr steamPort \<Rightarrow>
             (Inr (Some \<lparr>ReleaseName = release,
                         sPorts = \<lparr>aGame = gamePort, aSourceTV = sourcePort,
                                   aClient = clientPort, aSteam = steamPort\<rparr>,
                         sPassword = secretParse secret secretKeyPassword,
                         RCON = secretParse secret secretKeyRCON,
                         sMap = secretParse secret secretKeyMap,
                         Token = secretParse secret secretKeyToken\<rparr>), ex1))))))"

text \<open>The secret \<open>persistStateSecret\<close> builds (\<open>desired\<close>).\<close>

definition desiredSecret :: "Controller \<Rightarrow> Match \<Rightarrow> MatchRound \<Rightarrow> serverState \<Rightarrow> Secret" where
  "desiredSecret c match round state =
     \<lparr>secName = secretName (ReleaseName state),
      secNamespace = cfgNamespace (ctlCfg c),
      secLabels = [(''app.kubernetes.io/instance'', ReleaseName state),
                   (''udl.tf/match-id'', Itoa (mID match)),
                   (''udl.tf/round-id'', Itoa (rID round))],
      secData = [(secretKeyPassword, sPassword state),
                 (secretKeyRCON, RCON state),
                 (secretKeyGamePort, Itoa (aGame (sPorts state))),
                 (secretKeySourcePort, Itoa (aSourceTV (sPorts state))),
                 (secretKeyClientPort, Itoa (aClient (sPorts state))),
                 (secretKeySteamPort, Itoa (aSteam (sPorts state))),
                 (secretKeyMap, preferValue (sMap state) [DefaultMap (cfgMatch (ctlCfg c)), []]),
                 (secretKeyToken, Token state)],
      secType = ''Opaque'',
      ResourceVersion = []\<rparr>"

definition persistStateSecret ::
  "'w Env \<Rightarrow> Controller \<Rightarrow> Match \<Rightarrow> MatchRound \<Rightarrow> serverState \<Rightarrow> 'w exec \<Rightarrow> error option \<times> 'w exec" where
  "persistStateSecret env c match round state ex =
     (case call (EvSecretsGet (cfgNamespace (ctlCfg c)) (secretName (ReleaseName state)))
                (SecretsGet (k8s env) (cfgNamespace (ctlCfg c)) (secretName (ReleaseName state))) ex of
        (Inl err, ex1) \<Rightarrow>
          (if IsNotFound err then
             call (EvSecretsCreate (cfgNamespace (ctlCfg c)) (desiredSecret c match round state))
                  (SecretsCreate (k8s env) (cfgNamespace (ctlCfg c)) (desiredSecret c match round state)) ex1
           else (Some err, ex1))
      | (Inr existing, ex1) \<Rightarrow>
          call (EvSecretsUpdate (cfgNamespace (ctlCfg c))
                  ((desiredSecret c match round state)\<lparr>ResourceVersion := ResourceVersion existing\<rparr>))
               (SecretsUpdate (k8s env) (cfgNamespace (ctlCfg c))
                  ((desiredSecret c match round state)\<lparr>ResourceVersion := ResourceVersion existing\<rparr>)) ex1)"

definition deleteStateSecret ::
  "'w Env \<Rightarrow> Controller \<Rightarrow> string \<Rightarrow> 'w exec \<Rightarrow> error option \<times> 'w exec" where
  "deleteStateSecret env c release ex =
     (case call (EvSecretsDelete (cfgNamespace (ctlCfg c)) (secretName release))
                (SecretsDelete (k8s env) (cfgNamespace (ctlCfg c)) (secretName release)) ex of
        (Some err, ex1) \<Rightarrow> (if \<not> IsNotFound err then (Some err, ex1) else (None, ex1))
      | (None, ex1) \<Rightarrow> (None, ex1))"

definition alphabet :: string where
  "alphabet = ''abcdefghijklmnopqrstuvwxyzABCDEFGHIJKLMNOPQRSTUVWXYZ0123456789''"

text \<open>The loop of \<open>generateSecret\<close>: one draw below 62 for each byte of the output.\<close>

fun generateSecretLoop ::
  "'w Env \<Rightarrow> nat \<Rightarrow> string \<Rightarrow> 'w exec \<Rightarrow> (error + string) \<times> 'w exec" where
  "generateSecretLoop env 0 output ex = (Inr output, ex)"
| "generateSecretLoop env (Suc n) output ex =
     (case call (EvRandInt (length alphabet)) (RandInt env (length alphabet)) ex of
        (Inl err, ex1) \<Rightarrow> (Inl err, ex1)
      | (Inr idx, ex1) \<Rightarrow>
          (if idx < length alphabet then generateSecretLoop env n (output @ [alphabet ! idx]) ex1
           else (Inl (ErrPanic ''index out of range''), ex1)))"

definition generateSecret ::
  "'w Env \<Rightarrow> go_int \<Rightarrow> 'w exec \<Rightarrow> (error + string) \<times> 'w exec" where
  "generateSecret env len ex =
     (if sint len < 0 then (Inl (ErrPanic ''makeslice: len out of range''), ex)
      else generateSecretLoop env (nat (sint len)) [] ex)"

definition generateSRCDSToken ::
  "GoLib \<Rightarrow> 'w Env \<Rightarrow> Controller \<Rightarrow> go_int \<Rightarrow> go_int \<Rightarrow> 'w exec \<Rightarrow> (error + string) \<times> 'w exec" where
  "generateSRCDSToken lib env c matchID roundID ex =
     (case steamClient c of
        None \<Rightarrow> (Inr (StaticToken (cfgSRCDS (ctlCfg c))), ex)
      | Some apiKey \<Rightarrow>
          (if \<not> EnableAutoTokens (cfgSteam (ctlCfg c)) then (Inr (StaticToken (cfgSRCDS (ctlCfg c))), ex)
           else
             (case CreateAccount lib env apiKey (AppID (cfgSteam (ctlCfg c)))
                     (Sprintf2 lib (TokenMemoTemplate (cfgSteam (ctlCfg c))) matchID roundID) ex of
                (Inl err, ex1) \<Rightarrow> (Inl (ErrWrap ''create steam account'' err), ex1)
              | (Inr account, ex1) \<Rightarrow> (Inr (LoginToken account), ex1))))"

text \<open>The loop of \<open>cleanupSRCDSToken\<close>; a failed delete is logged and the loop goes on.\<close>

fun deleteMatchingAccounts ::
  "GoLib \<Rightarrow> 'w Env \<Rightarrow> string \<Rightarrow> string \<Rightarrow> Account list \<Rightarrow> 'w exec \<Rightarrow> 'w exec" where
  "deleteMatchingAccounts lib env apiKey memo [] ex = ex"
| "deleteMatchingAccounts lib env apiKey memo (account # rest) ex =
     (if Memo account = memo \<and> \<not> IsDeleted account then
        deleteMatchingAccounts lib env apiKey memo rest
          (snd (DeleteAccount lib env apiKey (SteamID account) ex))
      else deleteMatchingAccounts lib env apiKey memo rest ex)"

definition cleanupSRCDSToken ::
  "GoLib \<Rightarrow> 'w Env \<Rightarrow> Controller \<Rightarrow> go_int \<Rightarrow> go_int \<Rightarrow> 'w exec \<Rightarrow> error option \<times> 'w exec" where
  "cleanupSRCDSToken lib env c matchID roundID ex =
     (case steamClient c of
        None \<Rightarrow> (None, ex)
      | Some apiKey \<Rightarrow>
          (if \<not> EnableTokenCleanup (cfgSteam (ctlCfg c)) then (None, ex)
           else
             (case GetAccountList lib env apiKey ex of
                (Inl err, ex1) \<Rightarrow> (Some (ErrWrap ''get account list'' err), ex1)
              | (Inr accounts, ex1) \<Rightarrow>
                  (None, deleteMatchingAccounts lib env apiKey
                           (Sprintf2 lib (TokenMemoTemplate (cfgSteam (ctlCfg c))) matchID roundID)
                           accounts ex1))))"

definition applyHelmRelease ::
  "'w Env \<Rightarrow> Controller \<Rightarrow> string \<Rightarrow> Value \<Rightarrow> 'w exec \<Rightarrow> error option \<times> 'w exec" where
  "applyHelmRelease env c release overrides ex =
     (if \<not> hasRenderer c then (Some (ErrMsg ''helm renderer is not configured''), ex)
      else call (EvRendererApply release overrides) (RendererApply env release overrides) ex)"

definition deleteHelmRelease ::
  "'w Env \<Rightarrow> Controller \<Rightarrow> string \<Rightarrow> Value \<Rightarrow> 'w exec \<Rightarrow> error option \<times> 'w exec" where
  "deleteHelmRelease env c release overrides ex =
     (if \<not> hasRenderer c then (Some (ErrMsg ''helm renderer is not configured''), ex)
      else call (EvRendererDelete release overrides) (RendererDelete env release overrides) ex)"

definition NodeIPExternalFirst :: string where
  "NodeIPExternalFirst = ''external-first''"

definition isIPv4 :: "GoLib \<Rightarrow> string \<Rightarrow> bool" where
  "isIPv4 lib addr = parsesAsIPv4 lib (TrimSpace addr)"

text \<open>
  The two nested loops of \<open>pickNodeIP\<close>, over the addresses of all nodes in order:
  the address returned from inside the loop if any, and the internal candidate.
\<close>

fun scanAddresses ::
  "GoLib \<Rightarrow> Controller \<Rightarrow> (NodeAddressType \<times> string) list \<Rightarrow> string \<Rightarrow> string option \<times> string" where
  "scanAddresses lib c [] internalCandidate = (None, internalCandidate)"
| "scanAddresses lib c ((addrType, address) # rest) internalCandidate =
     (if addrType = NodeExternalIP \<and> isIPv4 lib address
         \<and> NodeIPPreference (cfgNetworking (ctlCfg c)) = NodeIPExternalFirst
      then (Some address, internalCandidate)
      else scanAddresses lib c rest
             (if addrType = NodeInternalIP \<and> isIPv4 lib address \<and> internalCandidate = []
              then address else internalCandidate))"

definition pickNodeIP ::
  "GoLib \<Rightarrow> 'w Env \<Rightarrow> Controller \<Rightarrow> 'w exec \<Rightarrow> (error + string) \<times> 'w exec" where
  "pickNodeIP lib env c ex =
     (case call EvNodesList (NodesList (k8s env)) ex of
        (Inl err, ex1) \<Rightarrow> (Inl err, ex1)
      | (Inr nodes, ex1) \<Rightarrow>
          (case scanAddresses lib c (concat nodes) [] of
             (Some address, internalCandidate) \<Rightarrow> (Inr address, ex1)
           | (None, internalCandidate) \<Rightarrow>
               (if internalCandidate \<noteq> [] then (Inr internalCandidate, ex1)
                else (Inl (ErrMsg ''no suitable node IP found''), ex1))))"

text \<open>\<open>envVar\<close> for an integer and for a string value (\<open>%v\<close> formatting).\<close>

definition envVarInt :: "string \<Rightarrow> go_int \<Rightarrow> Value" where
  "envVarInt name v = VMap [(''name'', VString name), (''value'', VString (Itoa v))]"

definition envVarStr :: "string \<Rightarrow> string \<Rightarrow> Value" where
  "envVarStr name v = VMap [(''name'', VString name), (''value'', VString v)]"

definition namedPort :: "string \<Rightarrow> go_int \<Rightarrow> string \<Rightarrow> go_int \<Rightarrow> Value" where
  "namedPort name port protocol hostPort =
     VMap ([(''name'', VString name), (''containerPort'', VInt port), (''protocol'', VString protocol)]
           @ (if 0 < sint hostPort then [(''hostPort'', VInt hostPort)] else []))"

definition servicePort :: "string \<Rightarrow> go_int \<Rightarrow> go_int \<Rightarrow> string \<Rightarrow> Value" where
  "servicePort name port target protocol =
     VMap [(''name'', VString name), (''port'', VInt port), (''targetPort'', VInt target),
           (''protocol'', VString protocol), (''nodePort'', VInt port)]"

text \<open>\<open>strings.Join\<close>\<close>

fun Join :: "string list \<Rightarrow> string \<Rightarrow> string" where
  "Join [] sep = []"
| "Join [x] sep = x"
| "Join (x # y # rest) sep = x @ sep @ Join (y # rest) sep"

definition overlay :: "string \<Rightarrow> string \<Rightarrow> string \<Rightarrow> Value" where
  "overlay name path sourcePath =
     VMap [(''name'', VString name), (''path'', VString path), (''sourcePath'', VString sourcePath),
           (''hostPathType'', VString ''Directory''), (''readOnly'', VBool False)]"

definition buildValues ::
  "Controller \<Rightarrow> Match \<Rightarrow> MatchRound \<Rightarrow> string \<Rightarrow> League \<Rightarrow> string list \<Rightarrow> string list
     \<Rightarrow> serverState \<Rightarrow> Value" where
  "buildValues c match round divisionID league homeIDs awayIDs state =
    (let maxPlayers = (if 0 < sint (MaxPlayersOverride (cfgSRCDS (ctlCfg c)))
                       then MaxPlayersOverride (cfgSRCDS (ctlCfg c)) else MaxPlayers league);
         env =
           [envVarInt ''SRCDS_PORT'' (aGame (sPorts state)),
            envVarStr ''SRCDS_PW'' (sPassword state),
            envVarInt ''SRCDS_MAXPLAYERS'' maxPlayers,
            envVarInt ''SRCDS_TICKRATE'' (TickRate (cfgSRCDS (ctlCfg c))),
            envVarStr ''SRCDS_RCONPW'' (RCON state),
            envVarStr ''SRCDS_STARTMAP'' (preferValue (sMap state) [DefaultMap (cfgMatch (ctlCfg c)), []]),
            envVarStr ''SRCDS_STATIC_HOSTNAME''
              (''UDL.TF | '' @ Itoa (mID match) @ '' | Round #'' @ Itoa (rID round)),
            envVarStr ''SRCDS_TOKEN'' (Token state),
            envVarInt ''SRCDS_TV_PORT'' (aSourceTV (sPorts state)),
            envVarInt ''SRCDS_CLIENT_PORT'' (aClient (sPorts state)),
            envVarInt ''SRCDS_STEAM_PORT'' (aSteam (sPorts state)),
            envVarInt ''MATCH_ID'' (mID match),
            envVarInt ''ROUND_ID'' (rID round),
            envVarStr ''AWAY_TEAM'' (Join awayIDs '',''),
            envVarInt ''AWAY_TEAM_ID'' (RosterAwayID match),
            envVarStr ''HOME_TEAM'' (Join homeIDs '',''),
            envVarInt ''HOME_TEAM_ID'' (RosterHomeID match),
            envVarInt ''MIN_PLAYERS'' (MinPlayers league),
            envVarInt ''MAX_PLAYERS'' maxPlayers,
            envVarInt ''WIN_LIMIT'' (WinLimit match)];
         appPorts =
           [namedPort ''game-udp'' (aGame (sPorts state)) ''UDP'' 0,
            namedPort ''game-tcp'' (aGame (sPorts state)) ''TCP'' 0,
            namedPort ''sourcetv'' (aSourceTV (sPorts state)) ''UDP'' 0,
            namedPort ''client'' (aClient (sPorts state)) ''UDP'' 0,
            namedPort ''steam'' (aSteam (sPorts state)) ''UDP'' 0];
         servicePorts =
           [servicePort ''game-udp'' (aGame (sPorts state)) (aGame (sPorts state)) ''UDP'',
            servicePort ''game-tcp'' (aGame (sPorts state)) (aGame (sPorts state)) ''TCP'',
            servicePort ''sourcetv'' (aSourceTV (sPorts state)) (aSourceTV (sPorts state)) ''UDP'',
            servicePort ''client'' (aClient (sPorts state)) (aClient (sPorts state)) ''UDP'',
            servicePort ''steam'' (aSteam (sPorts state)) (aSteam (sPorts state)) ''UDP''];
         hostNetwork = HostNetwork (cfgNetworking (ctlCfg c));
         policy = ExternalTrafficPolicy (cfgNetworking (ctlCfg c));
         serviceConfig =
           [(''enabled'', VBool (\<not> hostNetwork))]
           @ (if \<not> hostNetwork
              then [(''type'', VString ''NodePort''), (''nameOverride'', VString (ReleaseName state)),
                    (''ports'', VList servicePorts)]
              else [])
           @ (if \<not> hostNetwork \<and> policy \<noteq> [] then [(''externalTrafficPolicy'', VString policy)] else [])
     in VMap
         ([(''workload'',
             VMap [(''kind'', VString ''Deployment''), (''nameOverride'', VString (ReleaseName state)),
                   (''deploymentStrategy'', VMap [(''type'', VString ''Recreate'')])]),
           (''service'', VMap serviceConfig),
           (''app'',
             VMap [(''name'', VString (ReleaseName state)),
                   (''containerPort'', VInt (aGame (sPorts state))),
                   (''ports'', VList appPorts), (''env'', VList env),
                   (''stdin'', VBool True), (''tty'', VBool True)]),
           (''paths'',
             VMap [(''hostSource'', VString ''/mnt/tf2''), (''hostPathType'', VString ''Directory''),
                   (''containerTarget'', VString ''/tf'')]),
           (''decompressor'',
             VMap [(''scanBase'', VBool False),
                   (''scanOverlays'', VList [VString ''serverfiles-dodgeball-tourney'']),
                   (''cache'',
                     VMap [(''enabled'', VBool True), (''type'', VString ''hostPath''),
                           (''mountAsOverlay'', VBool True), (''overlayName'', VString ''decomp-cache''),
                           (''hostPath'', VString ''/mnt/dodgeball-cache''),
                           (''hostPathType'', VString ''DirectoryOrCreate'')])]),
           (''writablePaths'',
             VList [VString ''tf/logs'', VString ''tf/demos'',
                    VString ''tf/addons/sourcemod/data'', VString ''tf/addons/sourcemod/logs'']),
           (''copyTemplates'',
             VList [VMap [(''targetPath'', VString ''tf/addons/sourcemod/configs/sourcebans''),
                          (''overlay'', VString ''serverfiles-base''),
                          (''sourcePath'', VString ''serverfiles/base/addons/sourcemod/configs/sourcebans''),
                          (''cleanTarget'', VBool False), (''targetMode'', VString ''writable''),
                          (''onlyOnInit'', VBool True)]]),
           (''overlays'',
             VList [overlay ''serverfiles-base-sourcemod'' ''/mnt/serverfiles'' ''serverfiles/base/sourcemod'',
                    overlay ''serverfiles-base-sourcebans'' ''/mnt/serverfiles'' ''serverfiles/base/sourcebans'',
                    overlay ''serverfilesprivate-base'' ''/mnt/serverfilesprivate'' ''serverfiles/base'',
                    overlay ''serverfilesprivate-dodgeball-base'' ''/mnt/serverfilesprivate''
                      ''serverfiles/dodgeball/base'',
                    overlay ''serverfiles-dodgeball-tourney'' ''/mnt/serverfiles''
                      ''serverfiles/dodgeball/tourney'']),
           (''permissionsInit'',
             VMap [(''applyDuringMerge'', VBool True), (''applyPaths'', VList [VString ''/tf'']),
                   (''user'', VInt 1000), (''group'', VInt 1000), (''chmod'', VString ''775'')]),
           (''podLabels'',
             VMap [(''udl.tf/match-id'', VString (Itoa (mID match))),
                   (''udl.tf/round-id'', VString (Itoa (rID round))),
                   (''udl.tf/division'', VString divisionID)])]
          @ (if hostNetwork
             then [(''hostNetwork'', VBool True), (''dnsPolicy'', VString ''ClusterFirstWithHostNet'')]
             else [])))"

text \<open>
  \<open>ensureRound\<close>, first part: the state to run with and the flag \<open>isNew\<close>. With no
  stored state, ports are allocated and secrets generated.
\<close>

definition newServerState ::
  "GoLib \<Rightarrow> 'w Env \<Rightarrow> Controller \<Rightarrow> Match \<Rightarrow> MatchRound \<Rightarrow> string \<Rightarrow> string \<Rightarrow> 'w exec
     \<Rightarrow> (error + serverState) \<times> 'w exec" where
  "newServerState lib env c match round mapName release ex =
     (case call (EvServicesList (cfgNamespace (ctlCfg c)))
                (ServicesList (k8s env) (cfgNamespace (ctlCfg c))) ex of (listed, ex1) \<Rightarrow>
     (case AllocateResult (cfgPorts (ctlCfg c)) listed of
        Inl err \<Rightarrow> (Inl (ErrWrap ''allocate ports'' err), ex1)
      | Inr assign \<Rightarrow>
     (case generateSecret env (PasswordLength (cfgSRCDS (ctlCfg c))) ex1 of
        (Inl err, ex2) \<Rightarrow> (Inl (ErrWrap ''generate password'' err), ex2)
      | (Inr password, ex2) \<Rightarrow>
     (case generateSecret env (RCONLength (cfgSRCDS (ctlCfg c))) ex2 of
        (Inl err, ex3) \<Rightarrow> (Inl (ErrWrap ''generate rcon'' err), ex3)
      | (Inr rcon, ex3) \<Rightarrow>
     (case generateSRCDSToken lib env c (mID match) (rID round) ex3 of (minted, ex4) \<Rightarrow>
        (Inr \<lparr>ReleaseName = release, sPorts = assign, sPassword = password, RCON = rcon,
              sMap = mapName,
              Token = (case minted of Inl err \<Rightarrow> StaticToken (cfgSRCDS (ctlCfg c)) | Inr token \<Rightarrow> token)\<rparr>,
         ex4))))))"

definition refreshServerState ::
  "GoLib \<Rightarrow> 'w Env \<Rightarrow> Controller \<Rightarrow> Match \<Rightarrow> MatchRound \<Rightarrow> string \<Rightarrow> serverState \<Rightarrow> 'w exec
     \<Rightarrow> serverState \<times> 'w exec" where
  "refreshServerState lib env c match round mapName state ex =
     (if Token state = [] then
        (case generateSRCDSToken lib env c (mID match) (rID round) ex of (minted, ex1) \<Rightarrow>
           (state\<lparr>sMap := preferValue mapName [sMap state, DefaultMap (cfgMatch (ctlCfg c))],
                  Token := (case minted of Inl err \<Rightarrow> StaticToken (cfgSRCDS (ctlCfg c)) | Inr token \<Rightarrow> token)\<rparr>,
            ex1))
      else (state\<lparr>sMap := preferValue mapName [sMap state, DefaultMap (cfgMatch (ctlCfg c))]\<rparr>, ex))"

text \<open>
  \<open>ensureRound\<close>, second part, from \<open>persistStateSecret\<close> on, with the state and the
  flag of the first part.
\<close>

definition publishRound ::
  "GoLib \<Rightarrow> 'w Env \<Rightarrow> Controller \<Rightarrow> Match \<Rightarrow> MatchRound \<Rightarrow> string \<Rightarrow> League \<Rightarrow> string list
     \<Rightarrow> string list \<Rightarrow> string \<Rightarrow> string \<Rightarrow> serverState \<Rightarrow> bool \<Rightarrow> 'w exec \<Rightarrow> error option \<times> 'w exec" where
  "publishRound lib env c match round divisionID league homeIDs awayIDs mapName release state isNew ex =
     (case persistStateSecret env c match round state ex of
        (Some err, ex1) \<Rightarrow> (Some (ErrWrap ''persist secret'' err), ex1)
      | (None, ex1) \<Rightarrow>
     (case applyHelmRelease env c release
             (buildValues c match round divisionID league homeIDs awayIDs state) ex1 of
        (Some err, ex2) \<Rightarrow> (Some (ErrWrap ''apply helm release'' err), ex2)
      | (None, ex2) \<Rightarrow>
     (case pickNodeIP lib env c ex2 of
        (Inl err, ex3) \<Rightarrow> (Some (ErrWrap ''discover node ip'' err), ex3)
      | (Inr nodeIP, ex3) \<Rightarrow>
     (case call (EvUpsertMatchDetails
                   \<lparr>dMatchID = mID match, dRoundID = rID round, ServerIP = nodeIP,
                    dPort = aGame (sPorts state), dSourceTVPort = aSourceTV (sPorts state),
                    dPassword = sPassword state,
                    dMap = preferValue (sMap state) [mapName, DefaultMap (cfgMatch (ctlCfg c))]\<rparr>)
                (UpsertMatchDetails (db env)
                   \<lparr>dMatchID = mID match, dRoundID = rID round, ServerIP = nodeIP,
                    dPort = aGame (sPorts state), dSourceTVPort = aSourceTV (sPorts state),
                    dPassword = sPassword state,
                    dMap = preferValue (sMap state) [mapName, DefaultMap (cfgMatch (ctlCfg c))]\<rparr>) ex3 of
        (Some err, ex4) \<Rightarrow> (Some (ErrWrap ''upsert match details'' err), ex4)
      | (None, ex4) \<Rightarrow>
          (if isNew \<and> Enabled (cfgNotifications (ctlCfg c)) then
             (None, snd (SendNotificationsToTeams env (RosterHomeID match) (RosterAwayID match)
                           (''Match '' @ Itoa (mID match) @ '' Round '' @ Itoa (rID round)
                              @ '' is running on '' @ nodeIP @ '':'' @ Itoa (aGame (sPorts state))
                              @ '' with password '' @ sPassword state)
                           (Sprintf1 lib (LinkFormat (cfgNotifications (ctlCfg c))) (mID match)) ex4))
           else (None, ex4))))))"

definition ensureRound ::
  "GoLib \<Rightarrow> 'w Env \<Rightarrow> Controller \<Rightarrow> Match \<Rightarrow> MatchRound \<Rightarrow> string \<Rightarrow> League \<Rightarrow> string list
     \<Rightarrow> string list \<Rightarrow> string \<Rightarrow> MatchDetails option \<Rightarrow> string \<Rightarrow> 'w exec \<Rightarrow> error option \<times> 'w exec" where
  "ensureRound lib env c match round divisionID league homeIDs awayIDs mapName details release ex =
     (case loadServerState env c release ex of
        (Inl err, ex1) \<Rightarrow> (Some (ErrWrap ''load server state'' err), ex1)
      | (Inr None, ex1) \<Rightarrow>
          (case newServerState lib env c match round mapName release ex1 of
             (Inl err, ex2) \<Rightarrow> (Some err, ex2)
           | (Inr state, ex2) \<Rightarrow>
               publishRound lib env c match round divisionID league homeIDs awayIDs mapName release
                 state True ex2)
      | (Inr (Some stored), ex1) \<Rightarrow>
          (case refreshServerState lib env c match round mapName stored ex1 of (state, ex2) \<Rightarrow>
             publishRound lib env c match round divisionID league homeIDs awayIDs mapName release
               state False ex2))"

text \<open>
  \<open>teardownRound\<close> from \<open>deleteHelmRelease\<close> on, with the loaded or synthesized state.
\<close>

definition teardownWith ::
  "GoLib \<Rightarrow> 'w Env \<Rightarrow> Controller \<Rightarrow> Match \<Rightarrow> MatchRound \<Rightarrow> string \<Rightarrow> League \<Rightarrow> string list
     \<Rightarrow> string list \<Rightarrow> string \<Rightarrow> serverState \<Rightarrow> 'w exec \<Rightarrow> error option \<times> 'w exec" where
  "teardownWith lib env c match round divisionID league homeIDs awayIDs release state ex =
     (case deleteHelmRelease env c release
             (buildValues c match round divisionID league homeIDs awayIDs state) ex of
        (Some err, ex1) \<Rightarrow> (Some (ErrWrap ''delete helm release'' err), ex1)
      | (None, ex1) \<Rightarrow>
     (case call (EvDeleteMatchDetails (mID match) (rID round))
                (DeleteMatchDetails (db env) (mID match) (rID round)) ex1 of
        (Some err, ex2) \<Rightarrow> (Some (ErrWrap ''delete match details'' err), ex2)
      | (None, ex2) \<Rightarrow>
     (case deleteStateSecret env c release ex2 of
        (Some err, ex3) \<Rightarrow> (Some (ErrWrap ''delete secret'' err), ex3)
      | (None, ex3) \<Rightarrow>
          (None, snd (cleanupSRCDSToken lib env c (mID match) (rID round) ex3)))))"

text \<open>
  \<open>teardownRound\<close>. \<open>details\<close> is a pointer: reading it when it is nil is a panic.
\<close>

definition teardownRound ::
  "GoLib \<Rightarrow> 'w Env \<Rightarrow> Controller \<Rightarrow> Match \<Rightarrow> MatchRound \<Rightarrow> string \<Rightarrow> League \<Rightarrow> string list
     \<Rightarrow> string list \<Rightarrow> string \<Rightarrow> string \<Rightarrow> MatchDetails option \<Rightarrow> 'w exec \<Rightarrow> error option \<times> 'w exec" where
  "teardownRound lib env c match round divisionID league homeIDs awayIDs mapName release details ex =
     (case loadServerState env c release ex of
        (Inl err, ex1) \<Rightarrow> (Some (ErrWrap ''load state for teardown'' err), ex1)
      | (Inr (Some state), ex1) \<Rightarrow>
          teardownWith lib env c match round divisionID league homeIDs awayIDs release state ex1
      | (Inr None, ex1) \<Rightarrow>
          (case details of
             None \<Rightarrow> (Some (ErrPanic ''nil pointer dereference''), ex1)
           | Some d \<Rightarrow>
               teardownWith lib env c match round divisionID league homeIDs awayIDs release
                 \<lparr>ReleaseName = release,
                  sPorts = \<lparr>aGame = dPort d, aSourceTV = dSourceTVPort d,
                            aClient = dPort d + 1, aSteam = dPort d + 2\<rparr>,
                  sPassword = dPassword d,
                  RCON = [],
                  sMap = preferValue (dMap d) [mapName, DefaultMap (cfgMatch (ctlCfg c))],
                  Token = StaticToken (cfgSRCDS (ctlCfg c))\<rparr> ex1))"

text \<open>\<open>strings.Contains\<close>\<close>

definition Contains :: "string \<Rightarrow> string \<Rightarrow> bool" where
  "Contains s substr = sublist substr s"

text \<open>The loop of \<open>divisionMatchesFilter\<close> over the filters, then the function.\<close>

fun anyFilterMatches :: "string \<Rightarrow> string list \<Rightarrow> bool" where
  "anyFilterMatches normalized [] = False"
| "anyFilterMatches normalized (flt # rest) =
     (if flt = [] then anyFilterMatches normalized rest
      else if Contains normalized flt then True
      else anyFilterMatches normalized rest)"

definition divisionMatchesFilter :: "GoLib \<Rightarrow> Controller \<Rightarrow> string \<Rightarrow> bool" where
  "divisionMatchesFilter lib c name =
     (if length (DivisionFilters (cfgMatch (ctlCfg c))) = 0 then True
      else if ToLower lib (TrimSpace name) = [] then False
      else anyFilterMatches (ToLower lib (TrimSpace name)) (DivisionFilters (cfgMatch (ctlCfg c))))"

text \<open>
  The body of the loop of \<open>reconcileMatch\<close> over the rounds. An error is the error
  \<open>reconcileMatch\<close> returns with; the errors of \<open>ensureRound\<close> and \<open>teardownRound\<close>
  are logged and the loop goes on.
\<close>

definition reconcileRound ::
  "GoLib \<Rightarrow> 'w Env \<Rightarrow> Controller \<Rightarrow> Match \<Rightarrow> string \<Rightarrow> League \<Rightarrow> string list \<Rightarrow> string list
     \<Rightarrow> MatchRound \<Rightarrow> 'w exec \<Rightarrow> error option \<times> 'w exec" where
  "reconcileRound lib env c match divisionID league homeIDs awayIDs round ex =
     (case call (EvFetchMapName (MapID round)) (FetchMapName (db env) (MapID round)) ex of
        (fetched, ex1) \<Rightarrow>
     (case FetchMatchDetails env (mID match) (rID round) ex1 of
        (Inl err, ex2) \<Rightarrow> (Some (ErrWrap ''fetch match details'' err), ex2)
      | (Inr details, ex2) \<Rightarrow>
          (if ManualNotDone match \<or> \<not> HasOutcome round then
             (None, snd (ensureRound lib env c match round divisionID league homeIDs awayIDs
                           (case fetched of Inl err \<Rightarrow> DefaultMap (cfgMatch (ctlCfg c)) | Inr name \<Rightarrow> name)
                           details (releaseName (mID match) (rID round)) ex2))
           else if details \<noteq> None then
             (None, snd (teardownRound lib env c match round divisionID league homeIDs awayIDs
                           (case fetched of Inl err \<Rightarrow> DefaultMap (cfgMatch (ctlCfg c)) | Inr name \<Rightarrow> name)
                           (releaseName (mID match) (rID round)) details ex2))
           else (None, ex2))))"

fun reconcileRounds ::
  "GoLib \<Rightarrow> 'w Env \<Rightarrow> Controller \<Rightarrow> Match \<Rightarrow> string \<Rightarrow> League \<Rightarrow> string list \<Rightarrow> string list
     \<Rightarrow> MatchRound list \<Rightarrow> 'w exec \<Rightarrow> error option \<times> 'w exec" where
  "reconcileRounds lib env c match divisionID league homeIDs awayIDs [] ex = (None, ex)"
| "reconcileRounds lib env c match divisionID league homeIDs awayIDs (round # rest) ex =
     (case reconcileRound lib env c match divisionID league homeIDs awayIDs round ex of
        (Some err, ex1) \<Rightarrow> (Some err, ex1)
      | (None, ex1) \<Rightarrow> reconcileRounds lib env c match divisionID league homeIDs awayIDs rest ex1)"

definition reconcileMatch ::
  "GoLib \<Rightarrow> 'w Env \<Rightarrow> Controller \<Rightarrow> Match \<Rightarrow> 'w exec \<Rightarrow> error option \<times> 'w exec" where
  "reconcileMatch lib env c match ex =
     (case call (EvFetchDivision (RosterHomeID match)) (FetchDivision (db env) (RosterHomeID match)) ex of
        (Inl err, ex1) \<Rightarrow> (Some (ErrWrap ''fetch division'' err), ex1)
      | (Inr division, ex1) \<Rightarrow>
          (if \<not> divisionMatchesFilter lib c (divName division) then (None, ex1)
           else
     (case call (EvFetchLeague (divID division)) (FetchLeague (db env) (divID division)) ex1 of
        (Inl err, ex2) \<Rightarrow> (Some (ErrWrap ''fetch league'' err), ex2)
      | (Inr league, ex2) \<Rightarrow>
     (case call (EvFetchTeamSteamIDs (RosterHomeID match))
                (FetchTeamSteamIDs (db env) (RosterHomeID match)) ex2 of
        (Inl err, ex3) \<Rightarrow> (Some (ErrWrap ''fetch home steam ids'' err), ex3)
      | (Inr homeIDs, ex3) \<Rightarrow>
     (case call (EvFetchTeamSteamIDs (RosterAwayID match))
                (FetchTeamSteamIDs (db env) (RosterAwayID match)) ex3 of
        (Inl err, ex4) \<Rightarrow> (Some (ErrWrap ''fetch away steam ids'' err), ex4)
      | (Inr awayIDs, ex4) \<Rightarrow>
     (case call (EvFetchMatchRounds (mID match)) (FetchMatchRounds (db env) (mID match)) ex4 of
        (Inl err, ex5) \<Rightarrow> (Some (ErrWrap ''fetch match rounds'' err), ex5)
      | (Inr rounds, ex5) \<Rightarrow>
          reconcileRounds lib env c match (divID division) league homeIDs awayIDs rounds ex5))))))"

text \<open>The loop of \<open>reconcile\<close> over the matches, then the function: one tick.\<close>

fun reconcileMatches :: "GoLib \<Rightarrow> 'w Env \<Rightarrow> Controller \<Rightarrow> Match list \<Rightarrow> 'w exec \<Rightarrow> 'w exec" where
  "reconcileMatches lib env c [] ex = ex"
| "reconcileMatches lib env c (match # rest) ex =
     reconcileMatches lib env c rest (snd (reconcileMatch lib env c match ex))"

definition reconcile :: "GoLib \<Rightarrow> 'w Env \<Rightarrow> Controller \<Rightarrow> 'w exec \<Rightarrow> error option \<times> 'w exec" where
  "reconcile lib env c ex =
     (case call (EvFetchMatches (TargetStatuses (cfgMatch (ctlCfg c))))
                (FetchMatches (db env) (TargetStatuses (cfgMatch (ctlCfg c)))) ex of
        (Inl err, ex1) \<Rightarrow> (Some err, ex1)
      | (Inr matches, ex1) \<Rightarrow> (None, reconcileMatches lib env c matches ex1))"

section \<open>A cluster in memory\<close>

text \<open>
  The secrets of a cluster as an API server keeps them: objects by namespace and name,
  each write under a new resource version; a create of an existing name, an update of a
  missing one and an update from a stale version are refused.
\<close>

record ClusterState =
  secrets :: "string \<times> string \<Rightarrow> Secret option"
  revision :: nat

definition memSecretsGet :: "string \<Rightarrow> string \<Rightarrow> ClusterState \<Rightarrow> (error + Secret) \<times> ClusterState" where
  "memSecretsGet ns name st =
     (case secrets st (ns, name) of
        None \<Rightarrow> (Inl ErrNotFound, st)
      | Some secret \<Rightarrow> (Inr secret, st))"

definition memStore :: "string \<Rightarrow> Secret \<Rightarrow> ClusterState \<Rightarrow> ClusterState" where
  "memStore ns secret st =
     st\<lparr>secrets := (secrets st)((ns, secName secret) \<mapsto>
                       secret\<lparr>ResourceVersion := digits (Suc (revision st))\<rparr>),
        revision := Suc (revision st)\<rparr>"

definition memSecretsCreate :: "string \<Rightarrow> Secret \<Rightarrow> ClusterState \<Rightarrow> error option \<times> ClusterState" where
  "memSecretsCreate ns secret st =
     (case secrets st (ns, secName secret) of
        Some existing \<Rightarrow> (Some ErrAlreadyExists, st)
      | None \<Rightarrow> (None, memStore ns secret st))"

definition memSecretsUpdate :: "string \<Rightarrow> Secret \<Rightarrow> ClusterState \<Rightarrow> error option \<times> ClusterState" where
  "memSecretsUpdate ns secret st =
     (case secrets st (ns, secName secret) of
        None \<Rightarrow> (Some ErrNotFound, st)
      | Some existing \<Rightarrow>
          (if ResourceVersion secret \<noteq> [] \<and> ResourceVersion secret \<noteq> ResourceVersion existing
           then (Some ErrConflict, st)
           else (None, memStore ns secret st)))"

definition memSecretsDelete :: "string \<Rightarrow> string \<Rightarrow> ClusterState \<Rightarrow> error option \<times> ClusterState" where
  "memSecretsDelete ns name st =
     (case secrets st (ns, name) of
        None \<Rightarrow> (Some ErrNotFound, st)
      | Some existing \<Rightarrow> (None, st\<lparr>secrets := (secrets st)((ns, name) := None)\<rparr>))"

text \<open>Any world over such a cluster, with the secrets served from it.\<close>

definition withMemorySecrets :: "ClusterState Env \<Rightarrow> ClusterState Env" where
  "withMemorySecrets env =
     env\<lparr>k8s := (k8s env)\<lparr>SecretsGet := memSecretsGet, SecretsCreate := memSecretsCreate,
                           SecretsUpdate := memSecretsUpdate, SecretsDelete := memSecretsDelete\<rparr>\<rparr>"

section \<open>An example world\<close>

text \<open>
  A concrete library, world and configuration to run the model on: ASCII lower-casing,
  \<open>%d\<close> substitution, an empty database that accepts every write, a cluster with one
  node and no service, a renderer that succeeds, a random source that draws 0, and no
  network.
\<close>

definition asciiLower :: "char \<Rightarrow> char" where
  "asciiLower ch =
     (case map_of (zip ''ABCDEFGHIJKLMNOPQRSTUVWXYZ'' ''abcdefghijklmnopqrstuvwxyz'') ch of
        Some lower \<Rightarrow> lower
      | None \<Rightarrow> ch)"

fun substituteInts :: "string \<Rightarrow> string list \<Rightarrow> string" where
  "substituteInts [] args = []"
| "substituteInts [ch] args = [ch]"
| "substituteInts (ch # d # rest) args =
     (if ch = CHR ''%'' \<and> d = CHR ''d'' \<and> args \<noteq> []
      then hd args @ substituteInts rest (tl args)
      else ch # substituteInts (d # rest) args)"

definition exampleLib :: GoLib where
  "exampleLib =
     \<lparr>ToLower = map asciiLower,
      Sprintf1 = (\<lambda>format a. substituteInts format [Itoa a]),
      Sprintf2 = (\<lambda>format a b. substituteInts format [Itoa a, Itoa b]),
      parsesAsIPv4 = (\<lambda>s. s \<noteq> []),
      jsonResponse = (\<lambda>body. Inr body),
      jsonAccount = (\<lambda>data. Inr \<lparr>SteamID = ''85568392920040000'', accAppID = 440, LoginToken = data,
                                  Memo = [], IsDeleted = False, IsExpired = False, LastLogon = 0\<rparr>),
      jsonServers = (\<lambda>data. Inr [])\<rparr>"

definition exampleDatabase :: "ClusterState Database" where
  "exampleDatabase =
     \<lparr>FetchMatches = (\<lambda>statuses w. (Inr [], w)),
      FetchDivision = (\<lambda>roster w. (Inr \<lparr>divID = ''3'', divName = ''Intermediate North''\<rparr>, w)),
      FetchLeague = (\<lambda>division w. (Inr \<lparr>MinPlayers = 1, MaxPlayers = 2\<rparr>, w)),
      FetchTeamSteamIDs = (\<lambda>roster w. (Inr [], w)),
      FetchMatchRounds = (\<lambda>matchID w. (Inr [], w)),
      FetchMapName = (\<lambda>mapID w. (Inr ''tfdb_octagon_odb_a1'', w)),
      UpsertMatchDetails = (\<lambda>details w. (None, w)),
      DeleteMatchDetails = (\<lambda>matchID roundID w. (None, w)),
      SelectMatchDetails = (\<lambda>matchID roundID w. (Inl ErrNoRows, w)),
      SelectRosterUserIDs = (\<lambda>roster w. (Inr [roster], w)),
      InsertUserNotification = (\<lambda>userID message link w. (None, w))\<rparr>"

definition exampleEnv :: "ClusterState Env" where
  "exampleEnv =
     \<lparr>db = exampleDatabase,
      k8s = \<lparr>SecretsGet = memSecretsGet, SecretsCreate = memSecretsCreate,
             SecretsUpdate = memSecretsUpdate, SecretsDelete = memSecretsDelete,
             ServicesList = (\<lambda>ns w. (Inr [], w)),
             NodesList = (\<lambda>w. (Inr [[(NodeInternalIP, ''10.0.0.5'')]], w))\<rparr>,
      RendererApply = (\<lambda>release overrides w. (None, w)),
      RendererDelete = (\<lambda>release overrides w. (None, w)),
      RandInt = (\<lambda>bound w. (Inr 0, w)),
      HttpDo = (\<lambda>request w. (Inl (ErrMsg ''no network''), w))\<rparr>"

definition emptyCluster :: ClusterState where
  "emptyCluster = \<lparr>secrets = (\<lambda>key. None), revision = 0\<rparr>"

definition exampleConfig :: Config where
  "exampleConfig =
     \<lparr>cfgNamespace = ''udl'',
      cfgPorts = \<lparr>Game = \<lparr>Start = 30000, End = 30299\<rparr>, SourceTV = \<lparr>Start = 30300, End = 30599\<rparr>,
                  Client = \<lparr>Start = 40000, End = 40299\<rparr>, Steam = \<lparr>Start = 29000, End = 29299\<rparr>\<rparr>,
      cfgSRCDS = \<lparr>TickRate = 128, MaxPlayersOverride = 0, StaticToken = ''static'',
                  PasswordLength = 6, RCONLength = 12\<rparr>,
      cfgMatch = \<lparr>TargetStatuses = [0], DefaultMap = ''tfdb_octagon_odb_a1'',
                  DivisionFilters = [''invite'', ''premier'']\<rparr>,
      cfgNetworking = \<lparr>HostNetwork = False, NodeIPPreference = ''external-first'',
                       ExternalTrafficPolicy = ''Cluster''\<rparr>,
      cfgNotifications = \<lparr>Enabled = True, LinkFormat = ''/matches/%d''\<rparr>,
      cfgSteam = \<lparr>EnableAutoTokens = False, EnableTokenCleanup = False, APIKey = [],
                  AppID = 440, TokenMemoTemplate = ''udl-%d-%d''\<rparr>\<rparr>"

definition exampleMatch :: Match where
  "exampleMatch = \<lparr>mID = 42, RosterAwayID = 12, RosterHomeID = 11, WinLimit = 3, Status = 0,
                    ManualNotDone = False\<rparr>"

definition exampleRound :: MatchRound where
  "exampleRound = \<lparr>rID = 7, rMatchID = 42, MapID = 5, HomeTeamScore = 0, AwayTeamScore = 0,
                    LoserID = None, WinnerID = None, HasOutcome = False,
                    HomeReady = False, AwayReady = False\<rparr>"


text \<open>
  Two ranges that both end at the largest \<open>int\<close>, which \<open>PortRange.Validate\<close>
  accepts (both bounds positive, end not below start).
\<close>

definition overflowRanges :: PortsConfig where
  "overflowRanges =
     \<lparr>Game = \<lparr>Start = 0x7FFFFFFFFFFFFFFF, End = 0x7FFFFFFFFFFFFFFF\<rparr>,
      SourceTV = \<lparr>Start = 0x7FFFFFFFFFFFFFFF, End = 0x7FFFFFFFFFFFFFFF\<rparr>,
      Client = \<lparr>Start = 40000, End = 40299\<rparr>,
      Steam = \<lparr>Start = 29000, End = 29299\<rparr>\<rparr>"



text \<open>The error of a response with the error header or a status other than 200.\<close>

definition steamError :: "HttpResponse \<Rightarrow> error" where
  "steamError resp =
     (if ErrorMessageHeader resp \<noteq> [] then ErrMsg (ErrorMessageHeader resp)
      else ErrMsg (''steam API request failed with status '' @ Itoa (StatusCode resp)))"

text \<open>A registry that answers 204 No Content, without the error header.\<close>

definition noContentEnv :: "ClusterState Env" where
  "noContentEnv =
     exampleEnv\<lparr>HttpDo := (\<lambda>request w.
        (Inr \<lparr>ErrorMessageHeader = [], StatusCode = 204, Body = Inr ''{}''\<rparr>, w))\<rparr>"

text \<open>A database whose details row has a port column that is not a number.\<close>

definition malformedRowEnv :: "ClusterState Env" where
  "malformedRowEnv =
     exampleEnv\<lparr>db := exampleDatabase\<lparr>SelectMatchDetails := (\<lambda>matchID roundID w.
        (Inr \<lparr>rowMatchID = matchID, rowRoundID = roundID, rowServerIP = ''10.0.0.5'',
              rowPort = ''30000x'', rowSourceTVPort = ''30300'', rowPassword = ''pw'',
              rowMap = ''cp_dust''\<rparr>, w))\<rparr>\<rparr>"

text \<open>The map name the loop of \<open>reconcileMatch\<close> goes on with after the lookup.\<close>

definition resolvedMapName :: "Controller \<Rightarrow> error + string \<Rightarrow> string" where
  "resolvedMapName c fetched =
     (case fetched of Inl err \<Rightarrow> DefaultMap (cfgMatch (ctlCfg c)) | Inr name \<Rightarrow> name)"

text \<open>The connection details of the example round.\<close>

definition exampleDetails :: MatchDetails where
  "exampleDetails =
     \<lparr>dMatchID = 42, dRoundID = 7, ServerIP = ''10.0.0.5'', dPort = 30000, dSourceTVPort = 30300,
      dPassword = ''Xa12cdE678'', dMap = ''cp_dust''\<rparr>"

text \<open>
  The requests of \<open>SendNotificationsToTeams\<close>, the ones among the requests made, and
  an execution that went on without any.
\<close>

fun isNotifyRequest :: "event \<Rightarrow> bool" where
  "isNotifyRequest (EvSelectRosterUserIDs roster) = True"
| "isNotifyRequest (EvInsertUserNotification userID message link) = True"
| "isNotifyRequest ev = False"

definition notifyEvents :: "event list \<Rightarrow> event list" where
  "notifyEvents log = filter isNotifyRequest log"

definition extendsQuietly :: "'w exec \<Rightarrow> 'w exec \<Rightarrow> bool" where
  "extendsQuietly ex ex' = (\<exists>evs. snd ex' = snd ex @ evs \<and> (\<forall>e\<in>set evs. \<not> isNotifyRequest e))"

section \<open>Decimal numbers\<close>

lemma of_char_digitChar: "d < 10 \<Longrightarrow> (of_char (digitChar d) :: nat) = 48 + d"
  by (simp add: digitChar_def)

lemma isDigit_digitChar: "d < 10 \<Longrightarrow> isDigit (digitChar d)"
  by (simp add: isDigit_def of_char_digitChar)

lemma digits_nonempty: "digits n \<noteq> []"
  by (subst digits.simps) simp

lemma digits_all: "list_all isDigit (digits n)"
proof (induction n rule: digits.induct)
  case (1 n)
  show ?case
  proof (cases "n < 10")
    case True
    then show ?thesis by (subst digits.simps) (simp add: isDigit_digitChar)
  next
    case False
    with 1 show ?thesis by (subst digits.simps) (simp add: isDigit_digitChar)
  qed
qed

lemma digitsValue_snoc: "digitsValue (ds @ [ch]) = digitsValue ds * 10 + ((of_char ch :: nat) - 48)"
  by (simp add: digitsValue_def)

lemma digitsValue_digits: "digitsValue (digits n) = n"
proof (induction n rule: digits.induct)
  case (1 n)
  show ?case
  proof (cases "n < 10")
    case True
    then show ?thesis by (subst digits.simps) (simp add: digitsValue_def of_char_digitChar)
  next
    case False
    with 1 show ?thesis
      by (subst digits.simps) (simp add: digitsValue_snoc of_char_digitChar)
  qed
qed

lemma hd_digits_isDigit: "isDigit (hd (digits n))"
  using digits_all [of n] digits_nonempty [of n] by (cases "digits n") simp_all

lemma isDigit_not_sign: "isDigit ch \<Longrightarrow> ch \<noteq> CHR ''-'' \<and> ch \<noteq> CHR ''+''"
  by (auto simp: isDigit_def)

text \<open>Parsing what \<open>Itoa\<close> printed gives the number back, for every 64-bit integer.\<close>

lemma Atoi_Itoa: "Atoi (Itoa w) = Inr w"
proof (cases "sint w < 0")
  case True
  have lo: "- (2 ^ 63) \<le> sint w" using sint_ge [of w] by simp
  from True lo have b: "nat (- sint w) \<le> 2 ^ 63" by simp
  from True have "int (nat (- sint w)) = - sint w" by simp
  then have v: "word_of_int (- int (nat (- sint w))) = w" by simp
  show ?thesis using True b v
    by (simp add: Atoi_def Itoa_def digits_nonempty digits_all digitsValue_digits)
next
  case False
  have hi: "sint w < 2 ^ 63" using sint_lt [of w] by simp
  from False hi have b: "nat (sint w) < 2 ^ 63" by simp
  from False have v: "word_of_int (int (nat (sint w))) = w" by simp
  have h: "hd (digits (nat (sint w))) \<noteq> CHR ''-''" "hd (digits (nat (sint w))) \<noteq> CHR ''+''"
    using isDigit_not_sign [OF hd_digits_isDigit] by auto
  show ?thesis using False b v h
    by (simp add: Atoi_def Itoa_def digits_nonempty digits_all digitsValue_digits)
qed

lemma Itoa_nonempty: "Itoa w \<noteq> []"
  by (simp add: Itoa_def digits_nonempty)

section \<open>Port allocation: results\<close>

text \<open>
  C1. Allocate is claimed to return, for every configuration of four ranges, ports that
  each lie inside their configured range, and an error when a range has no free port.
  With the game and SourceTV ranges both equal to [9223372036854775807,
  9223372036854775807] and no service observed, the game pick reserves the only port of
  the SourceTV range; the scan of that range then wraps around and Allocate returns the
  SourceTV port -9223372036854775808, below the start of its range, instead of the error.
\<close>

theorem Allocate_overflow_leaves_range:
  "Allocate overflowRanges (Inr []) =
     Some (Inr \<lparr>aGame = 0x7FFFFFFFFFFFFFFF, aSourceTV = 0x8000000000000000,
                 aClient = 40000, aSteam = 29000\<rparr>)
   \<and> sint (0x8000000000000000 :: go_int) = - 9223372036854775808
   \<and> sint (0x8000000000000000 :: go_int) < sint (Start (SourceTV overflowRanges))"
  by (simp add: Allocate_def overflowRanges_def nextFree_def nextFreeFrom.simps usedPorts_def)

section \<open>State secret: results\<close>


lemma secretKeys_distinct:
  "distinct [secretKeyPassword, secretKeyRCON, secretKeyGamePort, secretKeySourcePort,
             secretKeyClientPort, secretKeySteamPort, secretKeyMap, secretKeyToken]"
  by (simp add: secretKeyPassword_def secretKeyRCON_def secretKeyGamePort_def secretKeySourcePort_def
      secretKeyClientPort_def secretKeySteamPort_def secretKeyMap_def secretKeyToken_def)

text \<open>Decoding the data of a desired secret.\<close>

lemma secretParse_desired:
  assumes "secData secret = secData (desiredSecret c match round s)"
  shows "secretParse secret secretKeyPassword = sPassword s"
    and "secretParse secret secretKeyRCON = RCON s"
    and "secretParse secret secretKeyGamePort = Itoa (aGame (sPorts s))"
    and "secretParse secret secretKeySourcePort = Itoa (aSourceTV (sPorts s))"
    and "secretParse secret secretKeyClientPort = Itoa (aClient (sPorts s))"
    and "secretParse secret secretKeySteamPort = Itoa (aSteam (sPorts s))"
    and "secretParse secret secretKeyMap = preferValue (sMap s) [DefaultMap (cfgMatch (ctlCfg c)), []]"
    and "secretParse secret secretKeyToken = Token s"
  using secretKeys_distinct by (auto simp: secretParse_def assms desiredSecret_def)

lemma secretToInt_desired:
  assumes "secData secret = secData (desiredSecret c match round s)"
  shows "secretToInt secret secretKeyGamePort = Inr (aGame (sPorts s))"
    and "secretToInt secret secretKeySourcePort = Inr (aSourceTV (sPorts s))"
    and "secretToInt secret secretKeyClientPort = Inr (aClient (sPorts s))"
    and "secretToInt secret secretKeySteamPort = Inr (aSteam (sPorts s))"
  by (simp_all add: secretToInt_def secretParse_desired [OF assms] Itoa_nonempty Atoi_Itoa)

lemma persist_memory:
  "\<exists>w' evs secret.
     persistStateSecret (withMemorySecrets env) c match round s (w, log) = (None, (w', log @ evs))
     \<and> secrets w' (cfgNamespace (ctlCfg c), secretName (ReleaseName s)) = Some secret
     \<and> secData secret = secData (desiredSecret c match round s)"
  by (cases "secrets w (cfgNamespace (ctlCfg c), secretName (ReleaseName s))")
     (auto simp: persistStateSecret_def withMemorySecrets_def call_def memSecretsGet_def
        memSecretsCreate_def memSecretsUpdate_def memStore_def IsNotFound_def desiredSecret_def)

lemma load_memory:
  assumes "secrets w (cfgNamespace (ctlCfg c), secretName release) = Some secret"
    and "secData secret = secData (desiredSecret c match round s)"
  shows "fst (loadServerState (withMemorySecrets env) c release (w, log))
    = Inr (Some \<lparr>ReleaseName = release, sPorts = sPorts s, sPassword = sPassword s, RCON = RCON s,
                 sMap = preferValue (sMap s) [DefaultMap (cfgMatch (ctlCfg c)), []], Token = Token s\<rparr>)"
  using assms(1)
  by (simp add: loadServerState_def withMemorySecrets_def call_def memSecretsGet_def
      secretToInt_desired [OF assms(2)] secretParse_desired [OF assms(2)])

text \<open>
  C3. For every server state, persisting it and then loading by its release name
  succeeds, and gives the state back with the map replaced by the first of the state's
  map and the default map that is not blank, trimmed. The cluster is the cluster in
  memory; the rest of the world is arbitrary.
\<close>

theorem persist_then_load:
  "fst (persistStateSecret (withMemorySecrets env) c match round s ex) = None \<and>
   fst (loadServerState (withMemorySecrets env) c (ReleaseName s)
          (snd (persistStateSecret (withMemorySecrets env) c match round s ex)))
     = Inr (Some (s\<lparr>sMap := preferValue (sMap s) [DefaultMap (cfgMatch (ctlCfg c)), []]\<rparr>))"
proof -
  obtain w log where ex: "ex = (w, log)" by (cases ex)
  from persist_memory [of env c match round s w log] obtain w' evs secret where
    p: "persistStateSecret (withMemorySecrets env) c match round s (w, log) = (None, (w', log @ evs))"
    and g: "secrets w' (cfgNamespace (ctlCfg c), secretName (ReleaseName s)) = Some secret"
    and d: "secData secret = secData (desiredSecret c match round s)" by blast
  show ?thesis using load_memory [OF g d, of env "log @ evs"] by (simp add: ex p)
qed









section \<open>Identity-registry client: results\<close>

lemma Itoa_204: "Itoa 204 = ''204''"
  by code_simp

lemma querySteam_result:
  assumes "\<forall>req. fst (HttpDo env req (fst ex)) = Inr resp"
  shows "fst (querySteam lib env key command method params ex) = steamResult lib resp"
proof -
  obtain w' where "HttpDo env \<lparr>reqMethod = method, reqURL = location @ command @ ''/'' @ version,
                             reqQuery = (''key'', key) # params\<rparr> (fst ex) = (Inr resp, w')"
    using assms by (metis fst_conv surj_pair)
  then show ?thesis by (simp add: querySteam_def call_def)
qed

text \<open>
  C4, as claimed: a call returns an error if and only if the response has the error
  header or a status outside the 2xx class. A response with status 204 and no error
  header is an error for \<open>DeleteAccount\<close>.
\<close>

theorem querySteam_204_counterexample:
  "fst (HttpDo noContentEnv
          \<lparr>reqMethod = ''POST'', reqURL = location @ ''DeleteAccount'' @ ''/'' @ version,
           reqQuery = [(''key'', ''key''), (''steamid'', ''1'')]\<rparr> emptyCluster)
     = Inr \<lparr>ErrorMessageHeader = [], StatusCode = 204, Body = Inr ''{}''\<rparr>
   \<and> fst (DeleteAccount exampleLib noContentEnv ''key'' ''1'' (emptyCluster, []))
     = Some (ErrMsg ''steam API request failed with status 204'')
   \<and> sint (200 :: go_int) \<le> sint (204 :: go_int) \<and> sint (204 :: go_int) < sint (300 :: go_int)"
  by (simp add: DeleteAccount_def querySteam_def call_def noContentEnv_def steamResult_def Itoa_204)

text \<open>
  C4, amended: for a response with a non-empty error header or a status other than 200,
  \<open>querySteam\<close>, \<open>CreateAccount\<close>, \<open>GetAccountList\<close> and \<open>DeleteAccount\<close>
  return an error, with the header text when the header is present and the status-code
  message otherwise; for status 200 without the header \<open>querySteam\<close> returns what
  reading and unwrapping the body gives. The transport answers every request with the
  response \<open>resp\<close>.
\<close>

theorem steam_error_responses:
  assumes "\<forall>req. fst (HttpDo env req (fst ex)) = Inr resp"
  shows "(ErrorMessageHeader resp \<noteq> [] \<longrightarrow> steamError resp = ErrMsg (ErrorMessageHeader resp))
    \<and> (ErrorMessageHeader resp = [] \<longrightarrow>
          steamError resp = ErrMsg (''steam API request failed with status '' @ Itoa (StatusCode resp)))
    \<and> (ErrorMessageHeader resp \<noteq> [] \<or> StatusCode resp \<noteq> 200 \<longrightarrow>
          fst (querySteam lib env key command method params ex) = Inl (steamError resp)
          \<and> fst (CreateAccount lib env key appID memo ex) = Inl (steamError resp)
          \<and> fst (GetAccountList lib env key ex) = Inl (steamError resp)
          \<and> fst (DeleteAccount lib env key steamID ex) = Some (steamError resp))
    \<and> (ErrorMessageHeader resp = [] \<and> StatusCode resp = 200 \<longrightarrow>
          fst (querySteam lib env key command method params ex)
            = (case Body resp of Inl err \<Rightarrow> Inl err | Inr body \<Rightarrow> jsonResponse lib body))"
proof -
  have q: "\<And>command method params.
      fst (querySteam lib env key command method params ex) = steamResult lib resp"
    using querySteam_result [OF assms] by simp
  have e: "ErrorMessageHeader resp \<noteq> [] \<or> StatusCode resp \<noteq> 200
      \<Longrightarrow> steamResult lib resp = Inl (steamError resp)"
    by (auto simp: steamResult_def steamError_def)
  have c: "ErrorMessageHeader resp \<noteq> [] \<or> StatusCode resp \<noteq> 200
      \<Longrightarrow> fst (CreateAccount lib env key appID memo ex) = Inl (steamError resp)"
    using q [of "''CreateAccount''" "''POST''" "[(''appid'', Itoa appID), (''memo'', memo)]"] e
    by (auto simp: CreateAccount_def split: prod.splits sum.splits)
  have g: "ErrorMessageHeader resp \<noteq> [] \<or> StatusCode resp \<noteq> 200
      \<Longrightarrow> fst (GetAccountList lib env key ex) = Inl (steamError resp)"
    using q [of "''GetAccountList''" "''GET''" "[]"] e
    by (auto simp: GetAccountList_def split: prod.splits sum.splits)
  have d: "ErrorMessageHeader resp \<noteq> [] \<or> StatusCode resp \<noteq> 200
      \<Longrightarrow> fst (DeleteAccount lib env key steamID ex) = Some (steamError resp)"
    using q [of "''DeleteAccount''" "''POST''" "[(''steamid'', steamID)]"] e
    by (auto simp: DeleteAccount_def split: prod.splits sum.splits)
  have b: "ErrorMessageHeader resp = [] \<and> StatusCode resp = 200
      \<Longrightarrow> steamResult lib resp = (case Body resp of Inl err \<Rightarrow> Inl err | Inr body \<Rightarrow> jsonResponse lib body)"
    by (auto simp: steamResult_def split: sum.splits)
  show ?thesis using q e c g d b by (simp add: steamError_def)
qed

theorem steam_error_responses_witness:
  "(\<forall>req. fst (HttpDo noContentEnv req (fst (emptyCluster, [])))
       = Inr \<lparr>ErrorMessageHeader = [], StatusCode = 204, Body = Inr ''{}''\<rparr>)
   \<and> fst (DeleteAccount exampleLib noContentEnv ''key'' ''1'' (emptyCluster, []))
       = Some (ErrMsg ''steam API request failed with status 204'')"
proof -
  have h: "\<forall>req. fst (HttpDo noContentEnv req (fst (emptyCluster, [])))
       = Inr \<lparr>ErrorMessageHeader = [], StatusCode = 204, Body = Inr ''{}''\<rparr>"
    by (simp add: noContentEnv_def)
  from steam_error_responses [OF h, of exampleLib "''key''" "''DeleteAccount''" "''POST''" "[]" 440 "[]" "''1''"]
  show ?thesis using h by (simp add: steamError_def Itoa_204)
qed


section \<open>Connection details: results\<close>

lemma Atoi_30000x: "Atoi (TrimSpace ''30000x'') = Inl (ErrSyntax ''30000x'')"
  by (simp add: TrimSpace_def trimLeftRunes.simps leadingSpace_def spaceRunes_def Atoi_def isDigit_def)

text \<open>
  C9. When the query finds no row, \<open>FetchMatchDetails\<close> returns absence and no error;
  when it finds a row whose port or sourcetvport text, trimmed, is not accepted by
  \<open>Atoi\<close>, it returns an error.
\<close>

theorem FetchMatchDetails_absent_or_malformed:
  "(fst (SelectMatchDetails (db env) matchID roundID (fst ex)) = Inl ErrNoRows
      \<longrightarrow> fst (FetchMatchDetails env matchID roundID ex) = Inr None)
   \<and> (fst (SelectMatchDetails (db env) matchID roundID (fst ex)) = Inr row
        \<and> (isl (Atoi (TrimSpace (rowPort row))) \<or> isl (Atoi (TrimSpace (rowSourceTVPort row))))
      \<longrightarrow> isl (fst (FetchMatchDetails env matchID roundID ex)))"
  by (cases "SelectMatchDetails (db env) matchID roundID (fst ex)")
     (auto simp: FetchMatchDetails_def call_def split: sum.splits)

theorem FetchMatchDetails_absent_or_malformed_witness:
  "fst (SelectMatchDetails (db exampleEnv) 42 7 (fst (emptyCluster, []))) = Inl ErrNoRows
   \<and> fst (FetchMatchDetails exampleEnv 42 7 (emptyCluster, [])) = Inr None
   \<and> isl (Atoi (TrimSpace ''30000x''))
   \<and> isl (fst (FetchMatchDetails malformedRowEnv 42 7 (emptyCluster, [])))"
proof -
  have a: "fst (SelectMatchDetails (db exampleEnv) 42 7 (fst (emptyCluster, []))) = Inl ErrNoRows"
    by (simp add: exampleEnv_def exampleDatabase_def)
  have b: "fst (SelectMatchDetails (db malformedRowEnv) 42 7 (fst (emptyCluster, [])))
      = Inr \<lparr>rowMatchID = 42, rowRoundID = 7, rowServerIP = ''10.0.0.5'',
              rowPort = ''30000x'', rowSourceTVPort = ''30300'', rowPassword = ''pw'',
              rowMap = ''cp_dust''\<rparr>"
    by (simp add: malformedRowEnv_def)
  have c: "isl (Atoi (TrimSpace ''30000x''))" by (simp add: Atoi_30000x)
  from FetchMatchDetails_absent_or_malformed [of exampleEnv 42 7 "(emptyCluster, [])"] a
  have 1: "fst (FetchMatchDetails exampleEnv 42 7 (emptyCluster, [])) = Inr None" by blast
  from FetchMatchDetails_absent_or_malformed [of malformedRowEnv 42 7 "(emptyCluster, [])"
      "\<lparr>rowMatchID = 42, rowRoundID = 7, rowServerIP = ''10.0.0.5'',
              rowPort = ''30000x'', rowSourceTVPort = ''30300'', rowPassword = ''pw'',
              rowMap = ''cp_dust''\<rparr>"] b c
  have 2: "isl (fst (FetchMatchDetails malformedRowEnv 42 7 (emptyCluster, [])))" by simp
  show ?thesis using a 1 c 2 by blast
qed

section \<open>Reconciler: results\<close>

lemma anyFilterMatches_iff:
  "anyFilterMatches normalized filters \<longleftrightarrow> (\<exists>f\<in>set filters. f \<noteq> [] \<and> Contains normalized f)"
  by (induction filters) auto

lemma TrimSpace_example: "TrimSpace ''Intermediate North'' = ''Intermediate North''"
  by (simp add: TrimSpace_def trimLeftRunes.simps leadingSpace_def spaceRunes_def)

lemma lower_example: "ToLower exampleLib (TrimSpace ''Intermediate North'') = ''intermediate north''"
  by (simp add: exampleLib_def TrimSpace_example asciiLower_def)

lemma no_invite: "\<not> sublist ''invite'' ''intermediate north''"
  by (simp add: sublist_code)

lemma no_premier: "\<not> sublist ''premier'' ''intermediate north''"
  by (simp add: sublist_code)

text \<open>
  C7. With an empty filter list every division name passes. With a non-empty list, when
  the home roster's division name, trimmed and lower-cased, contains none of the
  non-empty filters, \<open>reconcileMatch\<close> returns no error and its only request is the
  lookup of the division.
\<close>

theorem division_filter_skips:
  "(DivisionFilters (cfgMatch (ctlCfg c)) = [] \<longrightarrow> divisionMatchesFilter lib c name)
   \<and> (fst (FetchDivision (db env) (RosterHomeID match) (fst ex)) = Inr division
        \<and> DivisionFilters (cfgMatch (ctlCfg c)) \<noteq> []
        \<and> (\<forall>f\<in>set (DivisionFilters (cfgMatch (ctlCfg c))).
               f \<noteq> [] \<longrightarrow> \<not> Contains (ToLower lib (TrimSpace (divName division))) f)
      \<longrightarrow> \<not> divisionMatchesFilter lib c (divName division)
          \<and> fst (reconcileMatch lib env c match ex) = None
          \<and> snd (snd (reconcileMatch lib env c match ex)) = snd ex @ [EvFetchDivision (RosterHomeID match)])"
proof -
  have a: "DivisionFilters (cfgMatch (ctlCfg c)) = [] \<Longrightarrow> divisionMatchesFilter lib c name"
    by (simp add: divisionMatchesFilter_def)
  have b: "\<not> divisionMatchesFilter lib c (divName division)"
    if "DivisionFilters (cfgMatch (ctlCfg c)) \<noteq> []"
      and "\<forall>f\<in>set (DivisionFilters (cfgMatch (ctlCfg c))).
               f \<noteq> [] \<longrightarrow> \<not> Contains (ToLower lib (TrimSpace (divName division))) f"
    using that by (auto simp: divisionMatchesFilter_def anyFilterMatches_iff)
  have r: "fst (reconcileMatch lib env c match ex) = None
          \<and> snd (snd (reconcileMatch lib env c match ex)) = snd ex @ [EvFetchDivision (RosterHomeID match)]"
    if "fst (FetchDivision (db env) (RosterHomeID match) (fst ex)) = Inr division"
      and "\<not> divisionMatchesFilter lib c (divName division)"
    using that
    by (cases "FetchDivision (db env) (RosterHomeID match) (fst ex)")
       (simp add: reconcileMatch_def call_def)
  show ?thesis using a b r by blast
qed

theorem division_filter_skips_witness:
  "DivisionFilters (cfgMatch (ctlCfg ((New exampleConfig True)\<lparr>ctlCfg :=
       exampleConfig\<lparr>cfgMatch := (cfgMatch exampleConfig)\<lparr>DivisionFilters := []\<rparr>\<rparr>\<rparr>))) = []
   \<and> divisionMatchesFilter exampleLib ((New exampleConfig True)\<lparr>ctlCfg :=
       exampleConfig\<lparr>cfgMatch := (cfgMatch exampleConfig)\<lparr>DivisionFilters := []\<rparr>\<rparr>\<rparr>) ''Intermediate North''
   \<and> fst (FetchDivision (db exampleEnv) (RosterHomeID exampleMatch) (fst (emptyCluster, [])))
       = Inr \<lparr>divID = ''3'', divName = ''Intermediate North''\<rparr>
   \<and> DivisionFilters (cfgMatch (ctlCfg (New exampleConfig True))) = [''invite'', ''premier'']
   \<and> fst (reconcileMatch exampleLib exampleEnv (New exampleConfig True) exampleMatch (emptyCluster, [])) = None
   \<and> snd (snd (reconcileMatch exampleLib exampleEnv (New exampleConfig True) exampleMatch (emptyCluster, [])))
       = [EvFetchDivision 11]"
proof -
  let ?c0 = "(New exampleConfig True)\<lparr>ctlCfg :=
       exampleConfig\<lparr>cfgMatch := (cfgMatch exampleConfig)\<lparr>DivisionFilters := []\<rparr>\<rparr>\<rparr>"
  let ?d = "\<lparr>divID = ''3'', divName = ''Intermediate North''\<rparr>"
  have e: "DivisionFilters (cfgMatch (ctlCfg ?c0)) = []" by simp
  have f: "fst (FetchDivision (db exampleEnv) (RosterHomeID exampleMatch) (fst (emptyCluster, []))) = Inr ?d"
    by (simp add: exampleEnv_def exampleDatabase_def)
  have g: "DivisionFilters (cfgMatch (ctlCfg (New exampleConfig True))) = [''invite'', ''premier'']"
    by (simp add: New_def exampleConfig_def)
  have n: "\<forall>f\<in>set (DivisionFilters (cfgMatch (ctlCfg (New exampleConfig True)))).
               f \<noteq> [] \<longrightarrow> \<not> Contains (ToLower exampleLib (TrimSpace (divName ?d))) f"
    by (simp add: g Contains_def lower_example no_invite no_premier)
  from division_filter_skips [of ?c0 exampleLib "''Intermediate North''"] e
  have 1: "divisionMatchesFilter exampleLib ?c0 ''Intermediate North''" by blast
  from division_filter_skips [of "New exampleConfig True" exampleLib "[]" exampleEnv exampleMatch
      "(emptyCluster, [])" ?d] f g n
  have 2: "fst (reconcileMatch exampleLib exampleEnv (New exampleConfig True) exampleMatch (emptyCluster, [])) = None
     \<and> snd (snd (reconcileMatch exampleLib exampleEnv (New exampleConfig True) exampleMatch (emptyCluster, [])))
       = [EvFetchDivision (RosterHomeID exampleMatch)]"
    by simp
  show ?thesis using e 1 f g 2 by (simp add: exampleMatch_def)
qed

text \<open>
  C2. For a round that the loop of \<open>reconcileMatch\<close> processes, that is, whose
  connection details were loaded (\<open>details\<close>, possibly none): the round runs
  \<open>ensureRound\<close> when the match is manual-not-done or the round has no outcome;
  otherwise it runs \<open>teardownRound\<close> when details exist; otherwise it does nothing
  after the two lookups.
\<close>

theorem reconcileRound_decision:
  assumes "call (EvFetchMapName (MapID round)) (FetchMapName (db env) (MapID round)) ex = (fetched, ex1)"
    and "FetchMatchDetails env (mID match) (rID round) ex1 = (Inr details, ex2)"
  shows "(ManualNotDone match \<or> \<not> HasOutcome round \<longrightarrow>
            reconcileRound lib env c match divisionID league homeIDs awayIDs round ex
              = (None, snd (ensureRound lib env c match round divisionID league homeIDs awayIDs
                              (resolvedMapName c fetched) details (releaseName (mID match) (rID round)) ex2)))
    \<and> (\<not> (ManualNotDone match \<or> \<not> HasOutcome round) \<and> details \<noteq> None \<longrightarrow>
            reconcileRound lib env c match divisionID league homeIDs awayIDs round ex
              = (None, snd (teardownRound lib env c match round divisionID league homeIDs awayIDs
                              (resolvedMapName c fetched) (releaseName (mID match) (rID round)) details ex2)))
    \<and> (\<not> (ManualNotDone match \<or> \<not> HasOutcome round) \<and> details = None \<longrightarrow>
            reconcileRound lib env c match divisionID league homeIDs awayIDs round ex = (None, ex2))"
  using assms by (simp add: reconcileRound_def resolvedMapName_def)


theorem reconcileRound_decision_witness:
  "call (EvFetchMapName (MapID exampleRound)) (FetchMapName (db exampleEnv) (MapID exampleRound))
        (emptyCluster, [])
     = (Inr ''tfdb_octagon_odb_a1'', (emptyCluster, [EvFetchMapName 5]))
   \<and> FetchMatchDetails exampleEnv (mID exampleMatch) (rID exampleRound) (emptyCluster, [EvFetchMapName 5])
     = (Inr None, (emptyCluster, [EvFetchMapName 5, EvSelectMatchDetails 42 7]))
   \<and> \<not> ManualNotDone exampleMatch \<and> \<not> HasOutcome exampleRound
   \<and> reconcileRound exampleLib exampleEnv (New exampleConfig True) exampleMatch ''3''
         \<lparr>MinPlayers = 1, MaxPlayers = 2\<rparr> [] [] exampleRound (emptyCluster, [])
     = (None, snd (ensureRound exampleLib exampleEnv (New exampleConfig True) exampleMatch exampleRound ''3''
                     \<lparr>MinPlayers = 1, MaxPlayers = 2\<rparr> [] []
                     (resolvedMapName (New exampleConfig True) (Inr ''tfdb_octagon_odb_a1'')) None
                     (releaseName (mID exampleMatch) (rID exampleRound))
                     (emptyCluster, [EvFetchMapName 5, EvSelectMatchDetails 42 7])))
   \<and> reconcileRound exampleLib exampleEnv (New exampleConfig True) exampleMatch ''3''
         \<lparr>MinPlayers = 1, MaxPlayers = 2\<rparr> [] [] (exampleRound\<lparr>HasOutcome := True\<rparr>) (emptyCluster, [])
     = (None, (emptyCluster, [EvFetchMapName 5, EvSelectMatchDetails 42 7]))"
proof -
  have a: "call (EvFetchMapName (MapID exampleRound)) (FetchMapName (db exampleEnv) (MapID exampleRound))
        (emptyCluster, [])
     = (Inr ''tfdb_octagon_odb_a1'', (emptyCluster, [EvFetchMapName 5]))"
    by (simp add: call_def exampleEnv_def exampleDatabase_def exampleRound_def)
  have b: "FetchMatchDetails exampleEnv (mID exampleMatch) (rID exampleRound) (emptyCluster, [EvFetchMapName 5])
     = (Inr None, (emptyCluster, [EvFetchMapName 5, EvSelectMatchDetails 42 7]))"
    by (simp add: FetchMatchDetails_def call_def exampleEnv_def exampleDatabase_def exampleRound_def
        exampleMatch_def)
  have a': "call (EvFetchMapName (MapID (exampleRound\<lparr>HasOutcome := True\<rparr>)))
        (FetchMapName (db exampleEnv) (MapID (exampleRound\<lparr>HasOutcome := True\<rparr>))) (emptyCluster, [])
     = (Inr ''tfdb_octagon_odb_a1'', (emptyCluster, [EvFetchMapName 5]))"
    using a by simp
  have b': "FetchMatchDetails exampleEnv (mID exampleMatch) (rID (exampleRound\<lparr>HasOutcome := True\<rparr>))
        (emptyCluster, [EvFetchMapName 5])
     = (Inr None, (emptyCluster, [EvFetchMapName 5, EvSelectMatchDetails 42 7]))"
    using b by simp
  have f: "\<not> ManualNotDone exampleMatch" "\<not> HasOutcome exampleRound"
    by (simp_all add: exampleMatch_def exampleRound_def)
  from reconcileRound_decision [OF a b, of exampleLib "New exampleConfig True" "''3''"
      "\<lparr>MinPlayers = 1, MaxPlayers = 2\<rparr>" "[]" "[]"]
    reconcileRound_decision [OF a' b', of exampleLib "New exampleConfig True" "''3''"
      "\<lparr>MinPlayers = 1, MaxPlayers = 2\<rparr>" "[]" "[]"]
  show ?thesis using a b f by simp
qed

lemma call_log: "snd (snd (call ev operation ex)) = snd ex @ [ev]"
  by (simp add: call_def split: prod.splits)

lemma call_eq_log: "call ev operation ex = (res, ex') \<Longrightarrow> snd ex' = snd ex @ [ev]"
  using call_log [of ev operation ex] by simp

lemma querySteam_log:
  "querySteam lib env key command method params ex = (res, ex') \<Longrightarrow> prefix (snd ex) (snd ex')"
  by (auto simp: querySteam_def split: prod.splits sum.splits dest!: call_eq_log)

lemma DeleteAccount_log: "prefix (snd ex) (snd (snd (DeleteAccount lib env key steamID ex)))"
  by (auto simp: DeleteAccount_def split: prod.splits sum.splits dest!: querySteam_log)

lemma GetAccountList_log:
  "GetAccountList lib env key ex = (res, ex') \<Longrightarrow> prefix (snd ex) (snd ex')"
  by (auto simp: GetAccountList_def split: prod.splits sum.splits dest!: querySteam_log)

lemma deleteMatchingAccounts_log:
  "prefix (snd ex) (snd (deleteMatchingAccounts lib env key memo accounts ex))"
proof (induction accounts arbitrary: ex)
  case Nil
  then show ?case by simp
next
  case (Cons account rest)
  show ?case
    using Cons [of ex] Cons [of "snd (DeleteAccount lib env key (SteamID account) ex)"]
      DeleteAccount_log [of ex lib env key "SteamID account"]
    by (auto intro: prefix_order.trans)
qed

lemma cleanupSRCDSToken_log:
  "prefix (snd ex) (snd (snd (cleanupSRCDSToken lib env c matchID roundID ex)))"
proof (cases "steamClient c")
  case None
  then show ?thesis by (simp add: cleanupSRCDSToken_def)
next
  case (Some key)
  show ?thesis
  proof (cases "EnableTokenCleanup (cfgSteam (ctlCfg c))")
    case False
    with Some show ?thesis by (simp add: cleanupSRCDSToken_def)
  next
    case True
    obtain res ex1 where g: "GetAccountList lib env key ex = (res, ex1)"
      by (cases "GetAccountList lib env key ex")
    have p1: "prefix (snd ex) (snd ex1)" by (rule GetAccountList_log [OF g])
    show ?thesis
    proof (cases res)
      case (Inl err)
      with Some True g p1 show ?thesis by (simp add: cleanupSRCDSToken_def)
    next
      case (Inr accounts)
      have "prefix (snd ex1) (snd (deleteMatchingAccounts lib env key
              (Sprintf2 lib (TokenMemoTemplate (cfgSteam (ctlCfg c))) matchID roundID) accounts ex1))"
        by (rule deleteMatchingAccounts_log)
      with p1 have "prefix (snd ex) (snd (deleteMatchingAccounts lib env key
              (Sprintf2 lib (TokenMemoTemplate (cfgSteam (ctlCfg c))) matchID roundID) accounts ex1))"
        by (rule prefix_order.trans)
      with Some True g Inr show ?thesis by (simp add: cleanupSRCDSToken_def)
    qed
  qed
qed

lemma deleteStateSecret_log:
  "deleteStateSecret env c release ex = (res, ex') \<Longrightarrow> prefix (snd ex) (snd ex')"
  by (auto simp: deleteStateSecret_def split: prod.splits option.splits if_splits dest!: call_eq_log)

lemma teardownWith_renders_delete:
  assumes "hasRenderer c"
  shows "prefix (snd ex @ [EvRendererDelete release
                    (buildValues c match round divisionID league homeIDs awayIDs state)])
           (snd (snd (teardownWith lib env c match round divisionID league homeIDs awayIDs release state ex)))"
proof -
  let ?log = "snd ex @ [EvRendererDelete release
                    (buildValues c match round divisionID league homeIDs awayIDs state)]"
  obtain r1 ex1 where d: "deleteHelmRelease env c release
       (buildValues c match round divisionID league homeIDs awayIDs state) ex = (r1, ex1)"
    by (cases "deleteHelmRelease env c release
       (buildValues c match round divisionID league homeIDs awayIDs state) ex")
  then have l1: "snd ex1 = ?log"
    using assms by (auto simp: deleteHelmRelease_def dest!: call_eq_log)
  obtain r2 ex2 where m: "call (EvDeleteMatchDetails (mID match) (rID round))
                (DeleteMatchDetails (db env) (mID match) (rID round)) ex1 = (r2, ex2)"
    by (cases "call (EvDeleteMatchDetails (mID match) (rID round))
                (DeleteMatchDetails (db env) (mID match) (rID round)) ex1")
  then have l2: "prefix ?log (snd ex2)"
    using l1 by (auto dest!: call_eq_log)
  obtain r3 ex3 where s: "deleteStateSecret env c release ex2 = (r3, ex3)"
    by (cases "deleteStateSecret env c release ex2")
  then have l3: "prefix ?log (snd ex3)"
    using l2 deleteStateSecret_log [OF s] by (auto intro: prefix_order.trans)
  have l4: "prefix ?log (snd (snd (cleanupSRCDSToken lib env c (mID match) (rID round) ex3)))"
    using l3 cleanupSRCDSToken_log [of ex3 lib env c "mID match" "rID round"]
    by (auto intro: prefix_order.trans)
  show ?thesis
    using d m s l1 l2 l3 l4
    by (cases r1; cases r2; cases r3) (simp_all add: teardownWith_def)
qed

text \<open>
  C6. When \<open>teardownRound\<close> finds no state secret and the details row \<open>d\<close>
  exists, it goes on with the state made of the game port and SourceTV port of \<open>d\<close>,
  client port \<open>d.Port + 1\<close>, steam port \<open>d.Port + 2\<close>, an empty RCON key and the
  static token; the next request is the renderer's delete with the values built from
  that state.
\<close>

theorem teardown_synthesizes_state:
  assumes "loadServerState env c release ex = (Inr None, ex1)"
  shows "teardownRound lib env c match round divisionID league homeIDs awayIDs mapName release (Some d) ex
      = teardownWith lib env c match round divisionID league homeIDs awayIDs release
          \<lparr>ReleaseName = release,
           sPorts = \<lparr>aGame = dPort d, aSourceTV = dSourceTVPort d,
                     aClient = dPort d + 1, aSteam = dPort d + 2\<rparr>,
           sPassword = dPassword d, RCON = [],
           sMap = preferValue (dMap d) [mapName, DefaultMap (cfgMatch (ctlCfg c))],
           Token = StaticToken (cfgSRCDS (ctlCfg c))\<rparr> ex1
    \<and> (hasRenderer c \<longrightarrow>
         prefix (snd ex1 @ [EvRendererDelete release
                   (buildValues c match round divisionID league homeIDs awayIDs
                      \<lparr>ReleaseName = release,
                       sPorts = \<lparr>aGame = dPort d, aSourceTV = dSourceTVPort d,
                                 aClient = dPort d + 1, aSteam = dPort d + 2\<rparr>,
                       sPassword = dPassword d, RCON = [],
                       sMap = preferValue (dMap d) [mapName, DefaultMap (cfgMatch (ctlCfg c))],
                       Token = StaticToken (cfgSRCDS (ctlCfg c))\<rparr>)])
           (snd (snd (teardownRound lib env c match round divisionID league homeIDs awayIDs mapName
                        release (Some d) ex))))"
  using assms teardownWith_renders_delete [of c ex1 release match round divisionID league homeIDs awayIDs _ lib env]
  by (simp add: teardownRound_def)




theorem teardown_synthesizes_state_witness:
  "loadServerState exampleEnv (New exampleConfig True) ''udl-42-r7'' (emptyCluster, [])
     = (Inr None, (emptyCluster, [EvSecretsGet ''udl'' ''udl-42-r7-settings'']))
   \<and> hasRenderer (New exampleConfig True)
   \<and> prefix ([EvSecretsGet ''udl'' ''udl-42-r7-settings''] @ [EvRendererDelete ''udl-42-r7''
                 (buildValues (New exampleConfig True) exampleMatch exampleRound ''3''
                    \<lparr>MinPlayers = 1, MaxPlayers = 2\<rparr> [] []
                    \<lparr>ReleaseName = ''udl-42-r7'',
                     sPorts = \<lparr>aGame = 30000, aSourceTV = 30300, aClient = 30001, aSteam = 30002\<rparr>,
                     sPassword = ''Xa12cdE678'', RCON = [],
                     sMap = preferValue ''cp_dust'' [''tfdb_octagon_odb_a1'', ''tfdb_octagon_odb_a1''],
                     Token = ''static''\<rparr>)])
        (snd (snd (teardownRound exampleLib exampleEnv (New exampleConfig True) exampleMatch exampleRound
                     ''3'' \<lparr>MinPlayers = 1, MaxPlayers = 2\<rparr> [] [] ''tfdb_octagon_odb_a1''
                     ''udl-42-r7'' (Some exampleDetails) (emptyCluster, []))))"
proof -
  have a: "loadServerState exampleEnv (New exampleConfig True) ''udl-42-r7'' (emptyCluster, [])
     = (Inr None, (emptyCluster, [EvSecretsGet ''udl'' ''udl-42-r7-settings'']))"
    by (simp add: loadServerState_def call_def exampleEnv_def memSecretsGet_def emptyCluster_def
        IsNotFound_def New_def exampleConfig_def secretName_def)
  have h: "hasRenderer (New exampleConfig True)" by (simp add: New_def)
  from teardown_synthesizes_state [OF a, of exampleLib exampleMatch exampleRound "''3''"
      "\<lparr>MinPlayers = 1, MaxPlayers = 2\<rparr>" "[]" "[]" "''tfdb_octagon_odb_a1''" exampleDetails] h
  have "prefix (snd (emptyCluster, [EvSecretsGet ''udl'' ''udl-42-r7-settings'']) @ [EvRendererDelete ''udl-42-r7''
                 (buildValues (New exampleConfig True) exampleMatch exampleRound ''3''
                    \<lparr>MinPlayers = 1, MaxPlayers = 2\<rparr> [] []
                    \<lparr>ReleaseName = ''udl-42-r7'',
                     sPorts = \<lparr>aGame = dPort exampleDetails, aSourceTV = dSourceTVPort exampleDetails,
                               aClient = dPort exampleDetails + 1, aSteam = dPort exampleDetails + 2\<rparr>,
                     sPassword = dPassword exampleDetails, RCON = [],
                     sMap = preferValue (dMap exampleDetails)
                              [''tfdb_octagon_odb_a1'', DefaultMap (cfgMatch (ctlCfg (New exampleConfig True)))],
                     Token = StaticToken (cfgSRCDS (ctlCfg (New exampleConfig True)))\<rparr>)])
        (snd (snd (teardownRound exampleLib exampleEnv (New exampleConfig True) exampleMatch exampleRound
                     ''3'' \<lparr>MinPlayers = 1, MaxPlayers = 2\<rparr> [] [] ''tfdb_octagon_odb_a1''
                     ''udl-42-r7'' (Some exampleDetails) (emptyCluster, []))))"
    by blast
  then show ?thesis using a h by (simp add: exampleDetails_def New_def exampleConfig_def)
qed

section \<open>Ensure: the requests before the notifications\<close>

lemma extendsQuietly_refl [simp]: "extendsQuietly ex ex"
  by (simp add: extendsQuietly_def)

lemma extendsQuietly_trans: "extendsQuietly a b \<Longrightarrow> extendsQuietly b c \<Longrightarrow> extendsQuietly a c"
  by (fastforce simp: extendsQuietly_def)

lemma extendsQuietly_notify: "extendsQuietly ex ex' \<Longrightarrow> notifyEvents (snd ex') = notifyEvents (snd ex)"
  by (auto simp: extendsQuietly_def notifyEvents_def)

lemma extendsQuietly_mono: "extendsQuietly ex ex' \<Longrightarrow> e \<in> set (snd ex) \<Longrightarrow> e \<in> set (snd ex')"
  by (auto simp: extendsQuietly_def)

lemma call_quiet:
  "\<not> isNotifyRequest ev \<Longrightarrow> call ev operation ex = (res, ex') \<Longrightarrow> extendsQuietly ex ex'"
  by (auto simp: call_def extendsQuietly_def split: prod.splits)

lemma call_member: "call ev operation ex = (res, ex') \<Longrightarrow> ev \<in> set (snd ex')"
  by (auto simp: call_def split: prod.splits)

lemma loadServerState_quiet:
  "loadServerState env c release ex = (res, ex') \<Longrightarrow> extendsQuietly ex ex'"
  by (auto simp: loadServerState_def split: prod.splits sum.splits if_splits
      dest!: call_quiet [rotated])

lemma generateSecretLoop_quiet:
  "generateSecretLoop env n out ex = (res, ex') \<Longrightarrow> extendsQuietly ex ex'"
proof (induction n arbitrary: out ex)
  case 0
  then show ?case by simp
next
  case (Suc n)
  obtain r1 ex1 where c: "call (EvRandInt (length alphabet)) (RandInt env (length alphabet)) ex = (r1, ex1)"
    by (cases "call (EvRandInt (length alphabet)) (RandInt env (length alphabet)) ex")
  have q1: "extendsQuietly ex ex1" using call_quiet [OF _ c] by simp
  show ?case
  proof (cases r1)
    case (Inl err)
    with Suc.prems c q1 show ?thesis by simp
  next
    case (Inr idx)
    show ?thesis
    proof (cases "idx < length alphabet")
      case True
      with Suc.prems c Inr have "generateSecretLoop env n (out @ [alphabet ! idx]) ex1 = (res, ex')"
        by simp
      from Suc.IH [OF this] q1 show ?thesis by (rule extendsQuietly_trans [rotated])
    next
      case False
      with Suc.prems c Inr q1 show ?thesis by simp
    qed
  qed
qed

lemma generateSecret_quiet:
  "generateSecret env len ex = (res, ex') \<Longrightarrow> extendsQuietly ex ex'"
  by (auto simp: generateSecret_def split: if_splits dest: generateSecretLoop_quiet)

lemma querySteam_quiet:
  "querySteam lib env key command method params ex = (res, ex') \<Longrightarrow> extendsQuietly ex ex'"
  by (auto simp: querySteam_def split: prod.splits sum.splits dest!: call_quiet [rotated])

lemma CreateAccount_quiet:
  "CreateAccount lib env key appID memo ex = (res, ex') \<Longrightarrow> extendsQuietly ex ex'"
  by (auto simp: CreateAccount_def split: prod.splits sum.splits dest!: querySteam_quiet)

lemma generateSRCDSToken_quiet:
  "generateSRCDSToken lib env c matchID roundID ex = (res, ex') \<Longrightarrow> extendsQuietly ex ex'"
  by (auto simp: generateSRCDSToken_def split: option.splits if_splits prod.splits sum.splits
      dest!: CreateAccount_quiet)

lemma newServerState_quiet:
  assumes "newServerState lib env c match round mapName release ex = (res, ex')"
  shows "extendsQuietly ex ex'"
proof -
  obtain listed ex1 where l: "call (EvServicesList (cfgNamespace (ctlCfg c)))
                (ServicesList (k8s env) (cfgNamespace (ctlCfg c))) ex = (listed, ex1)"
    by (cases "call (EvServicesList (cfgNamespace (ctlCfg c)))
                (ServicesList (k8s env) (cfgNamespace (ctlCfg c))) ex")
  have q1: "extendsQuietly ex ex1" using call_quiet [OF _ l] by simp
  show ?thesis
  proof (cases "AllocateResult (cfgPorts (ctlCfg c)) listed")
    case (Inl err)
    with assms l q1 show ?thesis by (simp add: newServerState_def)
  next
    case (Inr assign)
    obtain r2 ex2 where p: "generateSecret env (PasswordLength (cfgSRCDS (ctlCfg c))) ex1 = (r2, ex2)"
      by (cases "generateSecret env (PasswordLength (cfgSRCDS (ctlCfg c))) ex1")
    have q2: "extendsQuietly ex ex2"
      using q1 generateSecret_quiet [OF p] by (rule extendsQuietly_trans)
    show ?thesis
    proof (cases r2)
      case (Inl err)
      with assms l Inr p q2 show ?thesis by (simp add: newServerState_def)
    next
      case password: (Inr password)
      obtain r3 ex3 where r: "generateSecret env (RCONLength (cfgSRCDS (ctlCfg c))) ex2 = (r3, ex3)"
        by (cases "generateSecret env (RCONLength (cfgSRCDS (ctlCfg c))) ex2")
      have q3: "extendsQuietly ex ex3"
        using q2 generateSecret_quiet [OF r] by (rule extendsQuietly_trans)
      show ?thesis
      proof (cases r3)
        case (Inl err)
        with assms l Inr p password r q3 show ?thesis by (simp add: newServerState_def)
      next
        case rcon: (Inr rcon)
        obtain minted ex4 where t: "generateSRCDSToken lib env c (mID match) (rID round) ex3 = (minted, ex4)"
          by (cases "generateSRCDSToken lib env c (mID match) (rID round) ex3")
        have q4: "extendsQuietly ex ex4"
          using q3 generateSRCDSToken_quiet [OF t] by (rule extendsQuietly_trans)
        with assms l Inr p password r rcon t show ?thesis by (simp add: newServerState_def)
      qed
    qed
  qed
qed

lemma refreshServerState_quiet:
  "refreshServerState lib env c match round mapName state ex = (res, ex') \<Longrightarrow> extendsQuietly ex ex'"
  by (auto simp: refreshServerState_def split: if_splits prod.splits dest!: generateSRCDSToken_quiet)

lemma persistStateSecret_quiet:
  "persistStateSecret env c match round state ex = (res, ex') \<Longrightarrow> extendsQuietly ex ex'"
  by (auto simp: persistStateSecret_def split: prod.splits sum.splits if_splits
      dest!: call_quiet [rotated] intro: extendsQuietly_trans)

lemma applyHelmRelease_quiet:
  "applyHelmRelease env c release overrides ex = (res, ex') \<Longrightarrow> extendsQuietly ex ex'"
  by (auto simp: applyHelmRelease_def split: if_splits dest!: call_quiet [rotated])

lemma pickNodeIP_quiet:
  "pickNodeIP lib env c ex = (res, ex') \<Longrightarrow> extendsQuietly ex ex'"
  by (auto simp: pickNodeIP_def split: prod.splits sum.splits option.splits if_splits
      dest!: call_quiet [rotated])

end
